(* ===== verification/Prelude.thy ===== *)
theory Prelude
  imports Main "HOL-Library.Sublist"
begin

text \<open>
  Shared vocabulary of the development: the types that name the model's data
  (e-mail addresses, calendar days, table cells), the collection of
  simplification rules the component theories feed, and generic lemmas on
  lists and maps used by several components.
\<close>

section \<open>Names of the model's types\<close>

text \<open>
  Python strings are modelled as HOL strings (lists of 8-bit characters);
  the application only ever handles ASCII text in the properties below.
  A calendar day (\<open>datetime.date\<close>) is a day number: the code only compares
  days for equality and reads \<open>date.today()\<close>.
\<close>

type_synonym email = string
type_synonym day = nat

text \<open>
  A cell of a table read by pandas with \<open>dtype=str\<close>: a string, or a
  missing value (\<open>NaN\<close>), which is \<open>None\<close>.
\<close>

type_synonym cell = "string option"

section \<open>Collections of rules\<close>

text \<open>
  \<open>model_simps\<close> collects the equations that evaluate the model's
  operations on concrete inputs; the witness theorems use it.
\<close>

named_theorems model_simps "equations that evaluate the model on concrete data"

section \<open>Generic lemmas\<close>

text \<open>A list map read through the indices: how row order is stated.\<close>

lemma map_by_index: "map f xs = map (\<lambda>i. f (xs ! i)) [0..<length xs]"
  by (rule nth_equalityI) simp_all

end
