(* ===== verification/PyStr.thy ===== *)
theory PyStr
  imports Prelude
begin

text \<open>
  The Python string operations that \<open>src/main.py\<close> applies: \<open>str.lower\<close>
  (the upload's file name, line 141, and the case-insensitive match of
  \<open>Series.str.contains(query, case=False)\<close>, lines 153 and 175),
  \<open>str.endswith\<close> (lines 145 and 170), \<open>" ".join\<close> over a row's fields
  (lines 152 and 174) and the substring test.  Each is an executable
  function; the lemmas relate them to the library's reference notions
  (\<open>suffix\<close>, \<open>sublist\<close>) and give the facts the search proofs use.
\<close>

section \<open>Lower case\<close>

text \<open>
  \<open>str.lower\<close> on ASCII: the letters A to Z (codes 65 to 90) move up by 32,
  every other character is kept.
\<close>

definition lower_char :: "char \<Rightarrow> char" where
  "lower_char c =
     (let n = of_char c :: nat in if 65 \<le> n \<and> n \<le> 90 then char_of (n + 32) else c)"

definition py_lower :: "string \<Rightarrow> string" where
  "py_lower s = map lower_char s"

lemma lower_char_idem [simp]: "lower_char (lower_char c) = lower_char c"
  by (simp add: lower_char_def Let_def)

lemma py_lower_idem [simp]: "py_lower (py_lower s) = py_lower s"
  by (simp add: py_lower_def comp_def)

lemma py_lower_append [simp]: "py_lower (xs @ ys) = py_lower xs @ py_lower ys"
  by (simp add: py_lower_def)

lemma py_lower_Nil [simp]: "py_lower [] = []"
  by (simp add: py_lower_def)

lemma length_py_lower [simp]: "length (py_lower s) = length s"
  by (simp add: py_lower_def)

section \<open>Prefix, suffix and substring tests\<close>

text \<open>\<open>s.startswith(p)\<close>, by recursion on both strings.\<close>

fun startswith :: "'a list \<Rightarrow> 'a list \<Rightarrow> bool" where
  "startswith s [] = True"
| "startswith [] (p # ps) = False"
| "startswith (c # cs) (p # ps) = (c = p \<and> startswith cs ps)"

text \<open>
  \<open>s.endswith(t)\<close>: Python compares the last \<open>len(t)\<close> characters, after
  checking that \<open>s\<close> is long enough.
\<close>

definition endswith :: "'a list \<Rightarrow> 'a list \<Rightarrow> bool" where
  "endswith s t = (length t \<le> length s \<and> drop (length s - length t) s = t)"

text \<open>
  The substring test \<open>q in s\<close>, as the naive scan a regular-expression
  search of a literal pattern performs: try every start position in turn.
\<close>

fun contains :: "'a list \<Rightarrow> 'a list \<Rightarrow> bool" where
  "contains [] q = (q = [])"
| "contains (c # cs) q = (startswith (c # cs) q \<or> contains cs q)"

text \<open>
  \<open>Series.str.contains(query, case=False)\<close> on one string: both sides
  are compared in lower case.
\<close>

definition contains_ci :: "string \<Rightarrow> string \<Rightarrow> bool" where
  "contains_ci s q = contains (py_lower s) (py_lower q)"

text \<open>\<open>sep.join(xs)\<close>: the strings of \<open>xs\<close> with \<open>sep\<close> between neighbours.\<close>

fun py_join :: "'a list \<Rightarrow> 'a list list \<Rightarrow> 'a list" where
  "py_join sep [] = []"
| "py_join sep [x] = x"
| "py_join sep (x # y # zs) = x @ sep @ py_join sep (y # zs)"

text \<open>\<open>str(n)\<close> of a non-negative integer: its decimal digits.\<close>

fun str_nat :: "nat \<Rightarrow> string" where
  "str_nat n = (if n < 10 then [char_of (48 + n)] else str_nat (n div 10) @ [char_of (48 + n mod 10)])"

declare str_nat.simps [simp del]

declare contains_ci_def [model_simps] py_lower_def [model_simps]
  lower_char_def [model_simps] endswith_def [model_simps]

subsection \<open>The executable tests against the library's notions\<close>

lemma startswith_prefix: "startswith s p \<longleftrightarrow> prefix p s"
  by (induction s p rule: startswith.induct) auto

lemma contains_sublist: "contains s q \<longleftrightarrow> sublist q s"
  by (induction s) (auto simp: startswith_prefix sublist_Cons_right)

lemma endswith_suffix: "endswith s t \<longleftrightarrow> suffix t s"
proof
  assume "endswith s t"
  then have "s = take (length s - length t) s @ t"
    by (metis append_take_drop_id endswith_def)
  then show "suffix t s" by (metis suffixI)
next
  assume "suffix t s"
  then obtain u where "s = u @ t" by (auto elim: suffixE)
  then show "endswith s t" by (simp add: endswith_def)
qed

subsection \<open>Facts the search uses\<close>

lemma contains_Nil_query [simp]: "contains s []"
  by (simp add: contains_sublist)

lemma sublist_py_join:
  "x \<in> set xs \<Longrightarrow> sublist x (py_join sep xs)"
proof (induction sep xs rule: py_join.induct)
  case (3 sep x y zs)
  then show ?case
    by (auto intro: sublist_order.order_trans[OF _ sublist_append_leftI]
                    sublist_order.order_trans[OF _ sublist_append_rightI])
qed auto

end
