(* ===== verification/PyRe.thy ===== *)
theory PyRe
  imports PyStr
begin

text \<open>
  The part of Python's \<open>re\<close> module that \<open>Series.str.contains(query,
  case=False)\<close> uses (lines 153 and 175): pandas compiles the query with
  \<open>re.compile(query, flags)\<close>, adding \<open>re.IGNORECASE\<close> to the flags
  when \<open>case\<close> is false, raising \<open>re.error\<close> on a malformed pattern, and
  tests each string with \<open>.search(s) is not None\<close>.  The search of
  \<open>src/main.py\<close> takes this library as a parameter of type \<open>regex\<close>: given
  whether \<open>re.IGNORECASE\<close> is set, a pattern compiles to the error's text or
  to the search predicate.  This
  theory gives one implementation of it for the common fragment of the
  pattern syntax (literals, \<open>.\<close>, escapes of punctuation, groups,
  alternation and the greedy and lazy quantifiers \<open>* + ?\<close>), with the error
  messages and positions CPython reports, and proves it correct against a
  language semantics.
\<close>

section \<open>Patterns and their language\<close>

type_synonym regex = "bool \<Rightarrow> string \<Rightarrow> string + (string \<Rightarrow> bool)"

datatype rx = RZero | REps | RChr char | RDot | RAlt rx rx | RSeq rx rx | RStar rx

definition conc :: "string set \<Rightarrow> string set \<Rightarrow> string set" where
  "conc A B = {u @ v |u v. u \<in> A \<and> v \<in> B}"

inductive_set star :: "string set \<Rightarrow> string set" for A where
  star_Nil: "[] \<in> star A"
| star_app: "u \<in> A \<Longrightarrow> v \<in> star A \<Longrightarrow> u @ v \<in> star A"

text \<open>
  Under \<open>re.IGNORECASE\<close> (flag \<open>ic\<close>) a character matches every
  character with the same lower case, otherwise only itself; \<open>.\<close> matches
  every character but the line break.
\<close>

definition cfold :: "bool \<Rightarrow> char \<Rightarrow> char" where
  "cfold ic c = (if ic then lower_char c else c)"

primrec lang :: "bool \<Rightarrow> rx \<Rightarrow> string set" where
  "lang ic RZero = {}"
| "lang ic REps = {[]}"
| "lang ic (RChr c) = {[d] |d. cfold ic d = cfold ic c}"
| "lang ic RDot = {[d] |d. d \<noteq> CHR 0x0A}"
| "lang ic (RAlt r s) = lang ic r \<union> lang ic s"
| "lang ic (RSeq r s) = conc (lang ic r) (lang ic s)"
| "lang ic (RStar r) = star (lang ic r)"

section \<open>Matching by derivatives\<close>

primrec nullable :: "rx \<Rightarrow> bool" where
  "nullable RZero = False"
| "nullable REps = True"
| "nullable (RChr c) = False"
| "nullable RDot = False"
| "nullable (RAlt r s) = (nullable r \<or> nullable s)"
| "nullable (RSeq r s) = (nullable r \<and> nullable s)"
| "nullable (RStar r) = True"

fun salt :: "rx \<Rightarrow> rx \<Rightarrow> rx" where
  "salt RZero s = s"
| "salt r RZero = r"
| "salt r s = RAlt r s"

fun sseq :: "rx \<Rightarrow> rx \<Rightarrow> rx" where
  "sseq RZero s = RZero"
| "sseq r RZero = RZero"
| "sseq REps s = s"
| "sseq r REps = r"
| "sseq r s = RSeq r s"

primrec deriv :: "bool \<Rightarrow> char \<Rightarrow> rx \<Rightarrow> rx" where
  "deriv ic c RZero = RZero"
| "deriv ic c REps = RZero"
| "deriv ic c (RChr d) = (if cfold ic c = cfold ic d then REps else RZero)"
| "deriv ic c RDot = (if c \<noteq> CHR 0x0A then REps else RZero)"
| "deriv ic c (RAlt r s) = salt (deriv ic c r) (deriv ic c s)"
| "deriv ic c (RSeq r s) =
     (if nullable r then salt (sseq (deriv ic c r) s) (deriv ic c s) else sseq (deriv ic c r) s)"
| "deriv ic c (RStar r) = sseq (deriv ic c r) (RStar r)"

definition matches :: "bool \<Rightarrow> rx \<Rightarrow> string \<Rightarrow> bool" where
  "matches ic r s = nullable (foldl (\<lambda>r c. deriv ic c r) r s)"

text \<open>\<open>pattern.search(s) is not None\<close>: some substring of \<open>s\<close> matches.\<close>

definition search_rx :: "bool \<Rightarrow> rx \<Rightarrow> string \<Rightarrow> bool" where
  "search_rx ic r s = list_ex (matches ic r) (sublists s)"

section \<open>Parsing a pattern\<close>

text \<open>
  The parser reads the pattern once, left to right, keeping the open groups
  on a stack.  A branch is the list of its pieces, last first, each with its
  quantifier state: 0 for none, 1 after \<open>* + ?\<close>, 2 after a lazy \<open>?\<close>.
  Syntax outside the fragment (character classes, anchors, \<open>{m,n}\<close>,
  letter escapes, \<open>(?...)\<close> extensions, possessive quantifiers) is
  answered with \<open>unsupported\<close>.
\<close>

type_synonym branch = "(rx \<times> nat) list"

definition mk_seq :: "branch \<Rightarrow> rx" where
  "mk_seq br = foldl (\<lambda>acc (r, _). RSeq r acc) REps br"

fun mk_alt :: "rx list \<Rightarrow> rx" where
  "mk_alt [] = RZero"
| "mk_alt [r] = r"
| "mk_alt (r # rs) = RAlt r (mk_alt rs)"

definition quant :: "char \<Rightarrow> rx \<Rightarrow> rx" where
  "quant c r = (if c = CHR ''*'' then RStar r else if c = CHR ''+'' then RSeq r (RStar r) else RAlt REps r)"

definition unsupported :: string where
  "unsupported = ''unsupported pattern''"

definition at_pos :: "string \<Rightarrow> nat \<Rightarrow> string" where
  "at_pos msg i = msg @ '' at position '' @ str_nat i"

definition literal_char :: "char \<Rightarrow> bool" where
  "literal_char c \<longleftrightarrow> c \<notin> set ''.^$*+?{}[]|()'' \<and> c \<noteq> CHR 0x5C"

definition alnum :: "char \<Rightarrow> bool" where
  "alnum c \<longleftrightarrow> c \<in> set ''0123456789abcdefghijklmnopqrstuvwxyzABCDEFGHIJKLMNOPQRSTUVWXYZ''"

fun pparse :: "nat \<Rightarrow> string \<Rightarrow> (rx list \<times> branch \<times> nat) list \<Rightarrow> rx list \<Rightarrow> branch \<Rightarrow> string + rx" where
  "pparse i [] stk alts br =
     (case stk of
        [] \<Rightarrow> Inr (mk_alt (rev (mk_seq br # alts)))
      | (_, _, p) # _ \<Rightarrow> Inl (at_pos ''missing ), unterminated subpattern'' p))"
| "pparse i (c # cs) stk alts br =
     (if c = CHR ''('' then
        (if take 1 cs = ''?'' then Inl unsupported
         else pparse (Suc i) cs ((alts, br, i) # stk) [] [])
      else if c = CHR '')'' then
        (case stk of
           [] \<Rightarrow> Inl (at_pos ''unbalanced parenthesis'' i)
         | (alts', br', _) # stk' \<Rightarrow>
             pparse (Suc i) cs stk' alts' ((mk_alt (rev (mk_seq br # alts)), 0) # br'))
      else if c = CHR ''|'' then pparse (Suc i) cs stk (mk_seq br # alts) []
      else if c \<in> set ''*+?'' then
        (case br of
           [] \<Rightarrow> Inl (at_pos ''nothing to repeat'' i)
         | (r, q) # br' \<Rightarrow>
             if q = 0 then pparse (Suc i) cs stk alts ((quant c r, 1) # br')
             else if q = 1 \<and> c = CHR ''?'' then pparse (Suc i) cs stk alts ((r, 2) # br')
             else if q = 1 \<and> c = CHR ''+'' then Inl unsupported
             else Inl (at_pos ''multiple repeat'' i))
      else if c = CHR ''.'' then pparse (Suc i) cs stk alts ((RDot, 0) # br)
      else if c = CHR 0x5C then
        (case cs of
           [] \<Rightarrow> Inl (at_pos ''bad escape (end of pattern)'' i)
         | d # ds \<Rightarrow>
             if alnum d then Inl unsupported
             else pparse (Suc (Suc i)) ds stk alts ((RChr d, 0) # br))
      else if c \<in> set ''[{^$'' then Inl unsupported
      else pparse (Suc i) cs stk alts ((RChr c, 0) # br))"

definition re_compile :: regex where
  "re_compile ic q = (case pparse 0 q [] [] [] of Inl e \<Rightarrow> Inl e | Inr r \<Rightarrow> Inr (search_rx ic r))"

section \<open>Literal patterns\<close>

text \<open>
  A query is literal when it holds no metacharacter of the pattern syntax;
  an engine treats it literally when, under \<open>re.IGNORECASE\<close>, it compiles
  it to the case-insensitive substring test.
\<close>

definition literal_query :: "string \<Rightarrow> bool" where
  "literal_query q \<longleftrightarrow> list_all literal_char q"

definition literal_matching :: "regex \<Rightarrow> string \<Rightarrow> bool" where
  "literal_matching rx q \<longleftrightarrow> rx True q = Inr (\<lambda>s. contains_ci s q)"

section \<open>Lemmas on the language and the matcher\<close>

lemma lang_salt [simp]: "lang ic (salt r s) = lang ic r \<union> lang ic s"
  by (induction r s rule: salt.induct) simp_all

lemma conc_empty [simp]: "conc {} B = {}" "conc A {} = {}"
  by (simp_all add: conc_def)

lemma conc_Nil [simp]: "conc {[]} B = B" "conc A {[]} = A"
  by (simp_all add: conc_def)

lemma lang_sseq [simp]: "lang ic (sseq r s) = conc (lang ic r) (lang ic s)"
  by (induction r s rule: sseq.induct) simp_all

lemma nullable_iff: "nullable r \<longleftrightarrow> [] \<in> lang ic r"
  by (induction r) (auto simp: conc_def intro: star.star_Nil)

lemma star_Cons:
  "c # w \<in> star A \<longleftrightarrow> (\<exists>u v. w = u @ v \<and> c # u \<in> A \<and> v \<in> star A)"
proof
  assume "c # w \<in> star A"
  then show "\<exists>u v. w = u @ v \<and> c # u \<in> A \<and> v \<in> star A"
  proof (induction "c # w" arbitrary: w rule: star.induct)
    case (star_app u v)
    show ?case
    proof (cases u)
      case Nil
      with star_app show ?thesis by simp
    next
      case (Cons d u')
      with star_app show ?thesis by auto
    qed
  qed
next
  assume "\<exists>u v. w = u @ v \<and> c # u \<in> A \<and> v \<in> star A"
  then show "c # w \<in> star A" by (auto dest: star.star_app)
qed

lemma conc_Cons:
  "c # w \<in> conc A B \<longleftrightarrow>
     (\<exists>u v. w = u @ v \<and> c # u \<in> A \<and> v \<in> B) \<or> ([] \<in> A \<and> c # w \<in> B)"
  unfolding conc_def by (auto simp: Cons_eq_append_conv)

lemma deriv_correct: "w \<in> lang ic (deriv ic c r) \<longleftrightarrow> c # w \<in> lang ic r"
proof (induction r arbitrary: w)
  case (RSeq r s)
  have l: "w \<in> conc (lang ic (deriv ic c r)) (lang ic s) \<longleftrightarrow>
             (\<exists>u v. w = u @ v \<and> c # u \<in> lang ic r \<and> v \<in> lang ic s)"
    using RSeq.IH(1) by (auto simp: conc_def)
  show ?case
    using RSeq.IH(2) by (simp add: l conc_Cons nullable_iff[of _ ic])
next
  case (RStar r)
  have l: "w \<in> conc (lang ic (deriv ic c r)) (star (lang ic r)) \<longleftrightarrow>
             (\<exists>u v. w = u @ v \<and> c # u \<in> lang ic r \<and> v \<in> star (lang ic r))"
    using RStar.IH by (auto simp: conc_def)
  show ?case by (simp add: l star_Cons)
qed auto

lemma matches_correct: "matches ic r s \<longleftrightarrow> s \<in> lang ic r"
proof (induction s arbitrary: r)
  case Nil
  then show ?case by (simp add: matches_def nullable_iff[of _ ic])
next
  case (Cons c s)
  then show ?case by (simp add: matches_def deriv_correct)
qed

lemma search_rx_correct: "search_rx ic r s \<longleftrightarrow> (\<exists>t. sublist t s \<and> t \<in> lang ic r)"
  by (auto simp: search_rx_def list_ex_iff matches_correct)

lemma search_rx_RAlt: "search_rx ic (RAlt r r') s \<longleftrightarrow> search_rx ic r s \<or> search_rx ic r' s"
  by (auto simp: search_rx_correct)

section \<open>Lemmas on the parser\<close>

text \<open>The pieces a run of literal characters adds to the current branch.\<close>

abbreviation lit_branch :: "string \<Rightarrow> branch" where
  "lit_branch q \<equiv> rev (map (\<lambda>c. (RChr c, 0)) q)"

lemma pparse_literal_app:
  "list_all literal_char q \<Longrightarrow>
   pparse i (q @ rest) stk alts br = pparse (i + length q) rest stk alts (lit_branch q @ br)"
proof (induction q arbitrary: i br)
  case Nil
  then show ?case by simp
next
  case (Cons c q)
  then have "literal_char c" and q: "list_all literal_char q" by simp_all
  then have "c \<notin> set ''.^$*+?{}[]|()''" and "c \<noteq> CHR 0x5C"
    by (simp_all add: literal_char_def)
  then show ?case
    using Cons.IH[OF q, of "Suc i" "(RChr c, 0) # br"] by simp
qed

lemma pparse_literal:
  "list_all literal_char q \<Longrightarrow> pparse i q [] [] br = Inr (mk_seq (lit_branch q @ br))"
  using pparse_literal_app[of q i "[]" "[]" "[]" br] by simp

lemma re_compile_literal:
  "literal_query q \<Longrightarrow> re_compile ic q = Inr (search_rx ic (mk_seq (lit_branch q)))"
  using pparse_literal[of q 0 "[]"] by (simp add: literal_query_def re_compile_def)

lemma re_compile_alt:
  assumes "literal_query a" and "literal_query b"
  shows "re_compile ic (a @ CHR ''|'' # b) =
           Inr (\<lambda>s. search_rx ic (mk_seq (lit_branch a)) s \<or> search_rx ic (mk_seq (lit_branch b)) s)"
proof -
  have "pparse 0 (a @ CHR ''|'' # b) [] [] [] = pparse (Suc (length a)) b [] [mk_seq (lit_branch a)] []"
    using assms(1) by (simp add: literal_query_def pparse_literal_app)
  also have "\<dots> = Inr (RAlt (mk_seq (lit_branch a)) (mk_seq (lit_branch b)))"
    using assms(2) pparse_literal_app[of b _ "[]" "[]" "[mk_seq (lit_branch a)]" "[]"]
    by (simp add: literal_query_def)
  finally show ?thesis
    by (simp add: re_compile_def search_rx_RAlt[abs_def])
qed

lemma re_compile_open_group:
  "literal_query a \<Longrightarrow> re_compile ic (CHR ''('' # a) = Inl ''missing ), unterminated subpattern at position 0''"
proof -
  assume a: "literal_query a"
  have "take 1 a \<noteq> ''?''"
    using a by (cases a) (auto simp: literal_query_def literal_char_def)
  then have "pparse 0 (CHR ''('' # a) [] [] [] = pparse 1 a [([], [], 0)] [] []"
    by simp
  also have "\<dots> = Inl (at_pos ''missing ), unterminated subpattern'' 0)"
    using a pparse_literal_app[of a 1 "[]" "[([], [], 0)]" "[]" "[]"] by (simp add: literal_query_def)
  finally have p: "pparse 0 (CHR ''('' # a) [] [] [] = Inl (at_pos ''missing ), unterminated subpattern'' 0)" .
  show ?thesis
    unfolding re_compile_def p by (simp add: at_pos_def str_nat.simps char_of_eq_iff)
qed

section \<open>Literal patterns\<close>

lemma mk_seq_chars: "lang ic (mk_seq (lit_branch q)) = {w. map (cfold ic) w = map (cfold ic) q}"
proof (induction q)
  case Nil
  then show ?case by (simp add: mk_seq_def)
next
  case (Cons c q)
  have "mk_seq (lit_branch (c # q)) = RSeq (RChr c) (mk_seq (lit_branch q))"
    by (simp add: mk_seq_def)
  with Cons show ?case
    by (auto simp: conc_def Cons_eq_map_conv) (metis append_Cons append_Nil)
qed

lemma sublist_map_conv: "sublist x (map f s) \<longleftrightarrow> (\<exists>t. sublist t s \<and> x = map f t)"
proof
  assume "sublist x (map f s)"
  then obtain ps ss where "map f s = ps @ x @ ss" by (auto simp: sublist_def)
  then obtain s1 s23 where "s = s1 @ s23" and "map f s23 = x @ ss"
    by (metis map_eq_append_conv)
  moreover from \<open>map f s23 = x @ ss\<close> obtain s2 s3 where "s23 = s2 @ s3" and "x = map f s2"
    by (metis map_eq_append_conv)
  ultimately show "\<exists>t. sublist t s \<and> x = map f t"
    by (metis sublist_appendI)
next
  assume "\<exists>t. sublist t s \<and> x = map f t"
  then obtain t ps ss where "s = ps @ t @ ss" and "x = map f t" by (auto simp: sublist_def)
  then show "sublist x (map f s)" by (simp add: sublist_appendI)
qed

lemma search_literal:
  "search_rx ic (mk_seq (lit_branch q)) s \<longleftrightarrow> sublist (map (cfold ic) q) (map (cfold ic) s)"
proof -
  have "search_rx ic (mk_seq (lit_branch q)) s \<longleftrightarrow> (\<exists>t. sublist t s \<and> map (cfold ic) q = map (cfold ic) t)"
    by (auto simp: search_rx_correct mk_seq_chars)
  also have "\<dots> \<longleftrightarrow> sublist (map (cfold ic) q) (map (cfold ic) s)"
    by (rule sublist_map_conv[symmetric])
  finally show ?thesis .
qed

lemma search_literal_ic:
  "search_rx True (mk_seq (lit_branch q)) s \<longleftrightarrow> contains_ci s q"
  by (simp add: search_literal cfold_def[abs_def] contains_ci_def contains_sublist py_lower_def)

lemma literal_matching_re_compile:
  "literal_query q \<Longrightarrow> literal_matching re_compile q"
  by (simp add: literal_matching_def re_compile_literal search_literal_ic[abs_def])

end
