(* ===== verification/Search.thy ===== *)
theory Search
  imports PyRe
begin

text \<open>
  The search engine of \<open>src/main.py\<close>, handler \<open>search\<close> from line 141
  on: the dispatch on the upload's file extension, the chunked scan of a
  CSV file (lines 144 to 167), the one-pass scan of an XLSX sheet (lines 169
  to 187), the unsupported-format answer (line 190) and the exception
  boundary (lines 192 and 193).  pandas' readers are the library boundary:
  an upload carries what \<open>pd.read_csv\<close> and \<open>pd.read_excel\<close> yield for its
  bytes, a table or the text of the exception they raise.  The query goes
  through Python's \<open>re\<close> (pandas' default \<open>regex=True\<close>), the parameter
  \<open>rx\<close> of type \<open>regex\<close>: every lemma holds for any engine, and
  \<open>re_compile\<close> of theory \<open>PyRe\<close> evaluates the examples.
\<close>

section \<open>Data\<close>

text \<open>
  A table as pandas reads it with \<open>dtype=str\<close>: the header's column names
  and the rows, each a list of cells (a missing cell is \<open>None\<close>, pandas'
  \<open>NaN\<close>).
\<close>

record table =
  columns :: "string list"
  rows :: "cell list list"

text \<open>
  \<open>UploadFile\<close>: its \<open>filename\<close>, and the outcome of each reader on its
  contents (\<open>Inl\<close> the message of the exception the reader raises).
\<close>

record upload =
  filename :: string
  csv_read :: "string + table"
  excel_read :: "string + table"

text \<open>
  What the search part of the handler answers: no result (lines 158 and
  179), the table of matching rows with its header (lines 161 to 167 and
  181 to 187), an unsupported format (line 190), or the text of an exception
  (line 193).
\<close>

datatype search_outcome =
    NoResults
  | Found "string list" "string list list"
  | Unsupported
  | Failed string

section \<open>One chunk: fill, join, msk, select\<close>

text \<open>\<open>fillna("").astype(str)\<close> on one cell.\<close>

definition fillna :: "cell \<Rightarrow> string" where
  "fillna c = (case c of None \<Rightarrow> [] | Some s \<Rightarrow> s)"

text \<open>\<open>" ".join\<close> applied to one row.\<close>

definition combined :: "string list \<Rightarrow> string" where
  "combined r = py_join '' '' r"

text \<open>
  What \<open>DataFrame.agg(" ".join, axis=1)\<close> returns: the Series of the joined
  rows, or, on a frame without rows, what pandas' \<open>apply_empty_result\<close>
  makes of it.  With columns, the trial call of the function on a row of
  \<open>NaN\<close>s raises, pandas cannot tell that the function reduces a row and
  hands back the frame itself; without columns the trial call joins nothing,
  so pandas reduces and returns an empty Series of floats.
\<close>

datatype agg_result = StrSeries "string list" | EmptyFloatSeries | FrameItself

definition agg_join :: "string list \<Rightarrow> string list list \<Rightarrow> agg_result" where
  "agg_join cols rs =
     (if rs = [] then (if cols = [] then EmptyFloatSeries else FrameItself)
      else StrSeries (map combined rs))"

text \<open>The \<open>AttributeError\<close> a DataFrame raises when asked for \<open>.str\<close>.\<close>

definition no_str_accessor :: string where
  "no_str_accessor = [CHR 0x27] @ ''DataFrame'' @ [CHR 0x27] @ '' object has no attribute '' @
     [CHR 0x27] @ ''str'' @ [CHR 0x27]"

text \<open>The \<open>AttributeError\<close> of \<open>.str\<close> on a Series of floats.\<close>

definition no_str_values :: string where
  "no_str_values = ''Can only use .str accessor with string values!''"

text \<open>
  \<open>combined.str.contains(query, case=..., na=False)\<close>: the accessor needs
  a Series of strings; the query is compiled, with \<open>re.IGNORECASE\<close> when
  \<open>case\<close> is false (an invalid pattern raises \<open>re.error\<close>), and searched in
  every string.
\<close>

definition str_contains :: "regex \<Rightarrow> string \<Rightarrow> bool \<Rightarrow> agg_result \<Rightarrow> string + bool list" where
  "str_contains rx query case_sensitive col =
     (case col of
        FrameItself \<Rightarrow> Inl no_str_accessor
      | EmptyFloatSeries \<Rightarrow> Inl no_str_values
      | StrSeries ss \<Rightarrow>
          (case rx (\<not> case_sensitive) query of Inl e \<Rightarrow> Inl e | Inr m \<Rightarrow> Inr (map m ss)))"

text \<open>\<open>chunk[mask]\<close>: the rows whose mask entry is true, in order.\<close>

definition select :: "bool list \<Rightarrow> 'a list \<Rightarrow> 'a list" where
  "select msk xs = map snd (filter fst (zip msk xs))"

declare fillna_def [model_simps] combined_def [model_simps] agg_join_def [model_simps]
  str_contains_def [model_simps] select_def [model_simps]

section \<open>The CSV path: chunks of 2000 rows\<close>

definition chunksize :: nat where
  "chunksize = 2000"

text \<open>Consecutive batches of \<open>n\<close> rows, the last one possibly shorter.\<close>

function chunks :: "nat \<Rightarrow> 'a list \<Rightarrow> 'a list list" where
  "chunks n xs = (if n = 0 \<or> xs = [] then [] else take n xs # chunks n (drop n xs))"
  by pat_completeness auto
termination
  by (relation "measure (\<lambda>(n, xs). length xs)") auto

declare chunks.simps [simp del]

text \<open>
  \<open>pd.read_csv(..., chunksize=n)\<close>: the batches of the rows; the first
  read always yields a chunk, an empty one when the file has a header and
  no rows.
\<close>

definition read_chunks :: "nat \<Rightarrow> 'a list \<Rightarrow> 'a list list" where
  "read_chunks n xs = (if xs = [] then [[]] else chunks n xs)"

text \<open>
  The loop of lines 150 to 155: each chunk is filled, joined and masked, and
  its matching rows are appended to \<open>results\<close> when there is one
  (\<open>mask.any()\<close>); an exception leaves the loop.
\<close>

fun csv_loop :: "regex \<Rightarrow> string \<Rightarrow> string list \<Rightarrow> cell list list list \<Rightarrow> string list list list \<Rightarrow>
    string + string list list list" where
  "csv_loop rx query cols [] results = Inr results"
| "csv_loop rx query cols (chunk # cs) results =
     (let chunk' = map (map fillna) chunk
      in case str_contains rx query False (agg_join cols chunk') of
           Inl e \<Rightarrow> Inl e
         | Inr msk \<Rightarrow> csv_loop rx query cols cs (if list_ex id msk then results @ [select msk chunk'] else results))"

text \<open>
  Lines 146 to 167: the loop, then \<open>if not results\<close>, then \<open>pd.concat\<close>;
  an exception is answered by line 193.
\<close>

definition search_csv :: "regex \<Rightarrow> string \<Rightarrow> table \<Rightarrow> search_outcome" where
  "search_csv rx query t =
     (case csv_loop rx query (columns t) (read_chunks chunksize (rows t)) [] of
        Inl e \<Rightarrow> Failed e
      | Inr results \<Rightarrow> if results = [] then NoResults else Found (columns t) (concat results))"

section \<open>The XLSX path: one pass\<close>

text \<open>Lines 171 to 187; \<open>results.empty\<close> when no row is selected.\<close>

definition search_xlsx :: "regex \<Rightarrow> string \<Rightarrow> table \<Rightarrow> search_outcome" where
  "search_xlsx rx query t =
     (let df = map (map fillna) (rows t)
      in case str_contains rx query False (agg_join (columns t) df) of
           Inl e \<Rightarrow> Failed e
         | Inr msk \<Rightarrow> (let results = select msk df
                        in if results = [] then NoResults else Found (columns t) results))"

section \<open>Dispatch on the extension\<close>

text \<open>
  Lines 141 to 193: the lower-cased file name selects the reader; a reader
  that raises yields \<open>Failed\<close> with the exception's text.
\<close>

definition search_upload :: "regex \<Rightarrow> string \<Rightarrow> upload \<Rightarrow> search_outcome" where
  "search_upload rx query up =
     (let fname = py_lower (filename up)
      in if endswith fname ''.csv'' then
           (case csv_read up of Inl e \<Rightarrow> Failed e | Inr t \<Rightarrow> search_csv rx query t)
         else if endswith fname ''.xlsx'' then
           (case excel_read up of Inl e \<Rightarrow> Failed e | Inr t \<Rightarrow> search_xlsx rx query t)
         else Unsupported)"

section \<open>Abstract specification\<close>

text \<open>
  What the search answers for a table: a table without rows fails at the
  \<open>.str\<close> accessor (of the frame when it has columns, of an empty float
  Series when it has none); otherwise a pattern that does not compile under
  \<open>re.IGNORECASE\<close> fails with the engine's message, and a compiled one
  selects the rows, missing cells filled with the empty string, whose fields
  joined by one space it finds, in the order of the file.
\<close>

definition matching_rows :: "(string \<Rightarrow> bool) \<Rightarrow> table \<Rightarrow> string list list" where
  "matching_rows m t = filter (\<lambda>r. m (combined r)) (map (map fillna) (rows t))"

definition search_spec :: "regex \<Rightarrow> string \<Rightarrow> table \<Rightarrow> search_outcome" where
  "search_spec rx query t =
     (if rows t = [] then Failed (if columns t = [] then no_str_values else no_str_accessor)
      else case rx True query of
             Inl e \<Rightarrow> Failed e
           | Inr m \<Rightarrow> if matching_rows m t = [] then NoResults else Found (columns t) (matching_rows m t))"

section \<open>Lemmas on chunks\<close>

lemma chunks_Nil [simp]: "chunks n [] = []"
  by (simp add: chunks.simps)

lemma chunks_Cons:
  "0 < n \<Longrightarrow> xs \<noteq> [] \<Longrightarrow> chunks n xs = take n xs # chunks n (drop n xs)"
  by (simp add: chunks.simps)

lemma concat_chunks: "0 < n \<Longrightarrow> concat (chunks n xs) = xs"
proof (induction n xs rule: chunks.induct)
  case (1 n xs)
  then show ?case
    by (cases "xs = []") (simp_all add: chunks_Cons)
qed

lemma chunks_bounded:
  "c \<in> set (chunks n xs) \<Longrightarrow> c \<noteq> [] \<and> length c \<le> n"
proof (induction n xs rule: chunks.induct)
  case (1 n xs)
  then show ?case
    by (cases "n = 0 \<or> xs = []") (auto simp: chunks.simps[of n xs])
qed

lemma div_ceil_single: "0 < (l::nat) \<Longrightarrow> l \<le> n \<Longrightarrow> (l + (n - 1)) div n = 1"
  by (rule div_nat_eqI) (simp_all only: mult_Suc_right mult_1_right mult_0_right add_0_right)

lemma length_chunks: "0 < n \<Longrightarrow> length (chunks n xs) = (length xs + (n - 1)) div n"
proof (induction n xs rule: chunks.induct)
  case (1 n xs)
  show ?case
  proof (cases "xs = []")
    case True
    with 1 show ?thesis by simp
  next
    case False
    with 1 have step: "length (chunks n xs) = Suc ((length xs - n + (n - 1)) div n)"
      by (simp add: chunks_Cons)
    show ?thesis
    proof (cases "length xs \<le> n")
      case True
      from \<open>xs \<noteq> []\<close> have "0 < length xs" by simp
      then have "(length xs + (n - 1)) div n = 1" using True by (rule div_ceil_single)
      moreover have "length xs - n = 0" using True by simp
      ultimately show ?thesis using step 1(2) by simp
    next
      case False
      then have eq: "length xs + (n - 1) = (length xs - n + (n - 1)) + n" by linarith
      have "(length xs + (n - 1)) div n = Suc ((length xs - n + (n - 1)) div n)"
        unfolding eq using 1(2) by (metis div_add_self2 less_not_refl2 Suc_eq_plus1)
      with step show ?thesis by simp
    qed
  qed
qed

lemma read_chunks_concat: "0 < n \<Longrightarrow> concat (read_chunks n xs) = xs"
  by (simp add: read_chunks_def concat_chunks)

lemma read_chunks_nonempty:
  "xs \<noteq> [] \<Longrightarrow> read_chunks n xs = chunks n xs \<and> list_all (\<lambda>c. c \<noteq> []) (chunks n xs)"
  using chunks_bounded[of _ n xs] by (auto simp: read_chunks_def list_all_iff)

section \<open>Lemmas on one chunk\<close>

lemma select_map: "select (map f xs) xs = filter f xs"
  by (induction xs) (simp_all add: select_def)

lemma list_ex_map_id: "list_ex id (map f xs) \<longleftrightarrow> filter f xs \<noteq> []"
  by (induction xs) auto

lemma str_contains_rows:
  "rs \<noteq> [] \<Longrightarrow> str_contains rx query False (agg_join cols rs) =
     (case rx True query of Inl e \<Rightarrow> Inl e | Inr m \<Rightarrow> Inr (map (\<lambda>r. m (combined r)) rs))"
  by (cases "rx True query") (simp_all add: str_contains_def agg_join_def comp_def)

lemma str_contains_no_rows [simp]:
  "str_contains rx query cs (agg_join cols []) = Inl (if cols = [] then no_str_values else no_str_accessor)"
  by (simp add: str_contains_def agg_join_def)

section \<open>Lemmas on the loop\<close>

lemma csv_loop_compiled:
  assumes "rx True query = Inr m" and "list_all (\<lambda>c. c \<noteq> []) cs"
  shows "csv_loop rx query cols cs results =
           Inr (results @ filter (\<lambda>rs. rs \<noteq> [])
                  (map (\<lambda>c. filter (\<lambda>r. m (combined r)) (map (map fillna) c)) cs))"
  using assms(2)
proof (induction cs arbitrary: results)
  case Nil
  then show ?case by simp
next
  case (Cons c cs)
  then have "c \<noteq> []" by simp
  let ?c' = "map (map fillna) c"
  have sc: "str_contains rx query False (agg_join cols ?c') = Inr (map (\<lambda>r. m (combined r)) ?c')"
    using \<open>c \<noteq> []\<close> assms(1) by (simp add: str_contains_rows)
  have "csv_loop rx query cols (c # cs) results =
          csv_loop rx query cols cs (if filter (\<lambda>r. m (combined r)) ?c' \<noteq> []
                                     then results @ [filter (\<lambda>r. m (combined r)) ?c'] else results)"
    by (simp only: csv_loop.simps Let_def sc sum.case select_map list_ex_map_id)
  with Cons show ?case by simp
qed

lemma csv_loop_error:
  "rx True query = Inl e \<Longrightarrow> c \<noteq> [] \<Longrightarrow> csv_loop rx query cols (c # cs) results = Inl e"
  by (simp add: str_contains_rows Let_def)

lemma concat_map_filter:
  "concat (map (\<lambda>c. filter P (map g c)) cs) = filter P (map g (concat cs))"
  by (induction cs) simp_all

lemma filter_nonempty_Nil_iff: "filter (\<lambda>xs. xs \<noteq> []) xss = [] \<longleftrightarrow> concat xss = []"
  by (induction xss) auto

lemma concat_filter_nonempty: "concat (filter (\<lambda>xs. xs \<noteq> []) xss) = concat xss"
  by (induction xss) auto

lemma chunksize_pos [simp]: "0 < chunksize"
  by (simp add: chunksize_def)

text \<open>
  The loop over the chunks of a file with rows, for a query the engine
  compiles: the frames appended to \<open>results\<close> are the non-empty
  selections of the chunks, in order.
\<close>

lemma csv_loop_read_chunks:
  assumes "xs \<noteq> []" and "rx True query = Inr m"
  shows "csv_loop rx query cols (read_chunks chunksize xs) [] =
           Inr (filter (\<lambda>rs. rs \<noteq> [])
                  (map (\<lambda>c. filter (\<lambda>r. m (combined r)) (map (map fillna) c)) (chunks chunksize xs)))"
  using read_chunks_nonempty[OF assms(1), of chunksize] csv_loop_compiled[of rx query m, OF assms(2)] by simp

text \<open>The loop on a file with rows stops at the first chunk when the query does not compile.\<close>

lemma csv_loop_read_chunks_error:
  assumes "xs \<noteq> []" and "rx True query = Inl e"
  shows "csv_loop rx query cols (read_chunks chunksize xs) [] = Inl e"
proof -
  obtain c cs where ch: "chunks chunksize xs = c # cs"
    using assms(1) by (cases "chunks chunksize xs") (auto simp: chunks_Cons)
  have "read_chunks chunksize xs = c # cs" and "c \<noteq> []"
    using read_chunks_nonempty[OF assms(1), of chunksize] ch by simp_all
  then show ?thesis using csv_loop_error[of rx query e, OF assms(2)] by simp
qed

section \<open>Lemmas on one row\<close>

lemma py_lower_py_join:
  "py_lower (py_join sep xs) = py_join (py_lower sep) (map py_lower xs)"
  by (induction sep xs rule: py_join.induct) simp_all

lemma py_lower_space [simp]: "py_lower '' '' = '' ''"
  by (simp add: py_lower_def lower_char_def)

lemma sublist_lower_field:
  "f \<in> set r \<Longrightarrow> sublist (py_lower f) (py_lower (combined r))"
  by (simp add: combined_def py_lower_py_join sublist_py_join)

section \<open>Both paths implement the specification\<close>

lemma search_csv_spec: "search_csv rx query t = search_spec rx query t"
proof (cases "rows t = []")
  case True
  then show ?thesis by (simp add: search_csv_def search_spec_def read_chunks_def)
next
  case False
  have cat: "concat (chunks chunksize (rows t)) = rows t" by (simp add: concat_chunks)
  show ?thesis
  proof (cases "rx True query")
    case (Inl e)
    with False show ?thesis
      by (simp add: search_csv_def search_spec_def csv_loop_read_chunks_error)
  next
    case (Inr m)
    have "concat (map (\<lambda>c. filter (\<lambda>r. m (combined r)) (map (map fillna) c)) (chunks chunksize (rows t)))
            = matching_rows m t"
      by (simp only: concat_map_filter cat matching_rows_def)
    with Inr False show ?thesis
      by (simp add: search_csv_def search_spec_def csv_loop_read_chunks concat_filter_nonempty
        filter_nonempty_Nil_iff)
  qed
qed

lemma search_xlsx_spec: "search_xlsx rx query t = search_spec rx query t"
  by (cases "rows t = []")
     (simp_all add: search_xlsx_def search_spec_def matching_rows_def str_contains_rows select_map
        split: sum.split)

text \<open>The search reads the query only through the engine, under \<open>re.IGNORECASE\<close>.\<close>

lemma search_upload_query_cong:
  assumes "rx True q = rx True q'"
  shows "search_upload rx q up = search_upload rx q' up"
proof -
  have "\<And>t. search_spec rx q t = search_spec rx q' t"
    using assms by (simp add: search_spec_def)
  then show ?thesis
    unfolding search_upload_def search_csv_spec search_xlsx_spec by (simp only:)
qed

lemma literal_char_lower:
  assumes "literal_char c"
  shows "literal_char (lower_char c)"
proof (cases "65 \<le> (of_char c :: nat) \<and> (of_char c :: nat) \<le> 90")
  case True
  let ?d = "char_of (of_char c + 32 :: nat) :: char"
  have "(of_char ?d :: nat) = of_char c + 32"
    using True by (simp add: of_char_of)
  with True have range: "97 \<le> (of_char ?d :: nat) \<and> (of_char ?d :: nat) \<le> 122" by simp
  have meta: "(of_char x :: nat) < 97 \<or> 122 < (of_char x :: nat)"
    if "x \<in> set ''.^$*+?{}[]|()'' \<or> x = CHR 0x5C" for x
    using that by auto
  have "\<not> (?d \<in> set ''.^$*+?{}[]|()'' \<or> ?d = CHR 0x5C)"
    using meta[of ?d] range by linarith
  with True show ?thesis by (simp add: literal_char_def lower_char_def Let_def)
next
  case False
  then have "lower_char c = c" by (auto simp: lower_char_def Let_def)
  with assms show ?thesis by simp
qed

lemma literal_query_lower: "literal_query q \<Longrightarrow> literal_query (py_lower q)"
  by (simp add: literal_query_def py_lower_def list_all_iff literal_char_lower)

section \<open>Properties of the search\<close>

text \<open>
  C1. Chunked and one-pass scans agree: for every pattern engine, query and
  table, the CSV path, which reads 2000 rows at a time and concatenates the
  per-chunk matches, answers exactly what the XLSX path's single pass over
  the whole table answers, errors included.
\<close>

theorem search_csv_eq_xlsx: "search_csv rx query t = search_xlsx rx query t"
  by (simp add: search_csv_spec search_xlsx_spec)

text \<open>
  C2. Row order is preserved: for a table with rows and a query that
  compiles under \<open>re.IGNORECASE\<close>, the CSV search answers \<open>NoResults\<close>
  exactly when no row matches, and otherwise the filled rows at the matching
  indices, in increasing index order, under the file's header.
\<close>

theorem search_csv_order:
  "rows t \<noteq> [] \<Longrightarrow> rx True query = Inr m \<Longrightarrow>
   search_csv rx query t =
     (let hits = filter (\<lambda>i. m (combined (map fillna (rows t ! i)))) [0..<length (rows t)]
      in if hits = [] then NoResults else Found (columns t) (map (\<lambda>i. map fillna (rows t ! i)) hits))"
proof -
  assume ne: "rows t \<noteq> []" and m: "rx True query = Inr m"
  have rows: "map (map fillna) (rows t) = map (\<lambda>i. map fillna (rows t ! i)) [0..<length (rows t)]"
    by (rule map_by_index)
  show ?thesis
    using ne m unfolding search_csv_spec search_spec_def matching_rows_def Let_def rows filter_map
    by (simp add: comp_def)
qed

theorem search_csv_order_witness:
  "search_csv re_compile ''x'' \<lparr>columns = [''c''], rows = [[Some ''x'']]\<rparr> = Found [''c''] [[''x'']]"
proof -
  have m: "re_compile True ''x'' = Inr (\<lambda>s. contains_ci s ''x'')"
    using literal_matching_re_compile[of "''x''"]
    by (simp add: literal_matching_def literal_query_def literal_char_def)
  show ?thesis
    using search_csv_order[of "\<lparr>columns = [''c''], rows = [[Some ''x'']]\<rparr>" re_compile "''x''"
            "\<lambda>s. contains_ci s ''x''"] m
    by (simp add: model_simps)
qed

text \<open>
  C3. A file whose lower-cased name ends in \<open>.csv\<close> is read as CSV: a
  reader exception is answered with its text, a table with the specified
  search result.
\<close>

theorem search_upload_csv:
  "endswith (py_lower (filename up)) ''.csv'' \<Longrightarrow>
   search_upload rx query up = (case csv_read up of Inl e \<Rightarrow> Failed e | Inr t \<Rightarrow> search_spec rx query t)"
  by (simp add: search_upload_def search_csv_spec split: sum.split)

theorem search_upload_csv_witness:
  "search_upload re_compile ''x'' \<lparr>filename = ''DATA.CSV'', csv_read = Inl ''bad line'', excel_read = Inl ''no''\<rparr>
     = Failed ''bad line''"
  using search_upload_csv[of "\<lparr>filename = ''DATA.CSV'', csv_read = Inl ''bad line'', excel_read = Inl ''no''\<rparr>" re_compile "''x''"]
  by (simp add: model_simps char_of_eq_iff)

text \<open>
  C4. A file whose lower-cased name ends in \<open>.xlsx\<close> (and not in
  \<open>.csv\<close>) is read as a spreadsheet, with the same two outcomes.
\<close>

theorem search_upload_xlsx:
  "\<not> endswith (py_lower (filename up)) ''.csv'' \<Longrightarrow> endswith (py_lower (filename up)) ''.xlsx'' \<Longrightarrow>
   search_upload rx query up = (case excel_read up of Inl e \<Rightarrow> Failed e | Inr t \<Rightarrow> search_spec rx query t)"
  by (simp add: search_upload_def search_xlsx_spec split: sum.split)

theorem search_upload_xlsx_witness:
  "search_upload re_compile ''acme''
     \<lparr>filename = ''Book.XLSX'', csv_read = Inl ''no'',
      excel_read = Inl ''File is not a zip file''\<rparr>
   = Failed ''File is not a zip file''"
  using search_upload_xlsx[of "\<lparr>filename = ''Book.XLSX'', csv_read = Inl ''no'',
      excel_read = Inl ''File is not a zip file''\<rparr>" re_compile "''acme''"]
  by (simp add: model_simps char_of_eq_iff)

text \<open>
  C5. Any other extension is answered with the unsupported-format message,
  whatever the query and whatever the readers would make of the file.
\<close>

theorem search_upload_unsupported:
  "\<not> endswith (py_lower (filename up)) ''.csv'' \<Longrightarrow> \<not> endswith (py_lower (filename up)) ''.xlsx'' \<Longrightarrow>
   search_upload rx query up = Unsupported"
  by (simp add: search_upload_def)

theorem search_upload_unsupported_witness:
  "search_upload re_compile ''('' \<lparr>filename = ''notes.txt'', csv_read = Inl ''a'', excel_read = Inl ''b''\<rparr> = Unsupported"
  using search_upload_unsupported[of "\<lparr>filename = ''notes.txt'', csv_read = Inl ''a'', excel_read = Inl ''b''\<rparr>" re_compile "''(''"]
  by (simp add: model_simps char_of_eq_iff)

text \<open>
  C6. The search ignores case, because \<open>case=False\<close> makes pandas compile
  the query with \<open>re.IGNORECASE\<close>: with Python's engine, a query without
  metacharacters and its lower-case form give the same answer on every
  upload (a file of either type, any table, any reader error).
\<close>

theorem search_case_insensitive:
  "literal_query query \<Longrightarrow> search_upload re_compile (py_lower query) up = search_upload re_compile query up"
proof -
  assume l: "literal_query query"
  have "re_compile True (py_lower query) = re_compile True query"
    using re_compile_literal[OF literal_query_lower[OF l]] re_compile_literal[OF l]
    by (simp add: fun_eq_iff search_literal_ic contains_ci_def)
  then show ?thesis by (rule search_upload_query_cong)
qed

theorem search_case_insensitive_witness:
  "search_upload re_compile (py_lower ''MiL'') \<lparr>filename = ''cities.csv'',
      csv_read = Inr \<lparr>columns = [''name'', ''city''],
        rows = [[Some ''Alice'', Some ''Rome''], [Some ''Bob'', Some ''Milan''],
                [Some ''Carol'', Some ''Turin'']]\<rparr>,
      excel_read = Inl ''not a zip file''\<rparr> =
   search_upload re_compile ''MiL'' \<lparr>filename = ''cities.csv'',
      csv_read = Inr \<lparr>columns = [''name'', ''city''],
        rows = [[Some ''Alice'', Some ''Rome''], [Some ''Bob'', Some ''Milan''],
                [Some ''Carol'', Some ''Turin'']]\<rparr>,
      excel_read = Inl ''not a zip file''\<rparr>"
  by (rule search_case_insensitive) (simp add: literal_query_def literal_char_def)

text \<open>
  C7. A query found in one field of a row (ignoring case) makes the row
  match, when the engine treats the query literally: the joined text
  contains every field.
\<close>

theorem row_field_match:
  "literal_matching rx query \<Longrightarrow> f \<in> set r \<Longrightarrow> contains_ci f query \<Longrightarrow>
   str_contains rx query False (agg_join cols [r]) = Inr [True]"
  unfolding literal_matching_def contains_ci_def contains_sublist
  by (simp add: str_contains_def agg_join_def)
     (blast intro: sublist_order.order_trans sublist_lower_field)

theorem row_field_match_witness:
  "str_contains re_compile ''acme'' False (agg_join [''name'', ''city''] [[''Acme Corp'', ''Rome'']]) = Inr [True]"
proof -
  have "literal_matching re_compile ''acme''"
    by (rule literal_matching_re_compile) (simp add: literal_query_def literal_char_def)
  then show ?thesis
    by (rule row_field_match[of _ _ "''Acme Corp''"])
       (simp_all add: contains_ci_def py_lower_def lower_char_def char_of_eq_iff)
qed

text \<open>
  C8. The CSV path holds at most 2000 rows of the file at a time: when the
  loop over \<open>pd.read_csv(..., chunksize=2000)\<close> completes, every frame it
  appended to \<open>results\<close> is a non-empty selection of at most 2000 rows, and
  there are at most \<open>\<lceil>rows / 2000\<rceil>\<close> of them for \<open>pd.concat\<close>.
\<close>

theorem csv_results_bounded:
  assumes "csv_loop rx query cols (read_chunks chunksize xs) [] = Inr res"
  shows "list_all (\<lambda>r. r \<noteq> [] \<and> length r \<le> 2000) res \<and> length res \<le> (length xs + 1999) div 2000"
proof -
  have ne: "xs \<noteq> []"
  proof
    assume "xs = []"
    with assms show False by (simp add: read_chunks_def)
  qed
  obtain m where m: "rx True query = Inr m"
  proof (cases "rx True query")
    case (Inl e)
    with assms show ?thesis by (simp add: csv_loop_read_chunks_error[OF ne])
  qed
  let ?sel = "\<lambda>c. filter (\<lambda>r. m (combined r)) (map (map fillna) c)"
  have res: "res = filter (\<lambda>rs. rs \<noteq> []) (map ?sel (chunks chunksize xs))"
    using assms csv_loop_read_chunks[of xs rx query m cols, OF ne m] by simp
  have "length (?sel c) \<le> 2000" if "c \<in> set (chunks chunksize xs)" for c
  proof -
    have "length (?sel c) \<le> length c"
      using length_filter_le[of _ "map (map fillna) c"] by simp
    also have "\<dots> \<le> 2000"
      using chunks_bounded[OF that] by (simp add: chunksize_def)
    finally show ?thesis .
  qed
  then have "list_all (\<lambda>r. r \<noteq> [] \<and> length r \<le> 2000) res"
    by (auto simp: res list_all_iff)
  moreover have "length res \<le> length (chunks chunksize xs)"
    unfolding res using length_filter_le[of _ "map ?sel (chunks chunksize xs)"] by simp
  ultimately show ?thesis
    by (simp add: length_chunks chunksize_def)
qed

theorem csv_results_bounded_witness:
  "list_all (\<lambda>r. r \<noteq> [] \<and> length r \<le> 2000) [[[''x'']]] \<and>
   length [[[''x'']]] \<le> (length [[Some ''x'']] + 1999) div 2000"
  by (rule csv_results_bounded[of re_compile "''x''" "[''c'']"]) code_simp

text \<open>
  C9. The query is a regular expression, not a substring: for two queries
  without metacharacters \<open>a\<close> and \<open>b\<close>, the query \<open>a|b\<close> matches exactly
  the strings that contain \<open>a\<close> or contain \<open>b\<close> (ignoring case), although
  none need contain the text \<open>a|b\<close> that the specification's substring test
  looks for.
\<close>

theorem str_contains_alternation:
  "literal_query a \<Longrightarrow> literal_query b \<Longrightarrow>
   str_contains re_compile (a @ CHR ''|'' # b) False (StrSeries ss) =
     Inr (map (\<lambda>s. contains_ci s a \<or> contains_ci s b) ss)"
  by (simp add: str_contains_def re_compile_alt search_literal_ic)

theorem str_contains_alternation_witness:
  "str_contains re_compile ''Mil|Tur'' False (StrSeries [''Bob Milan'', ''Alice Rome'', ''Carol Turin'']) =
     Inr [True, False, True]"
proof -
  have q: "''Mil|Tur'' = ''Mil'' @ CHR ''|'' # ''Tur''" by simp
  have "str_contains re_compile (''Mil'' @ CHR ''|'' # ''Tur'') False
          (StrSeries [''Bob Milan'', ''Alice Rome'', ''Carol Turin'']) =
        Inr (map (\<lambda>s. contains_ci s ''Mil'' \<or> contains_ci s ''Tur'') [''Bob Milan'', ''Alice Rome'', ''Carol Turin''])"
    by (rule str_contains_alternation) (simp_all add: literal_query_def literal_char_def)
  also have "\<dots> = Inr [True, False, True]" by code_simp
  finally show ?thesis by (simp only: q)
qed

text \<open>
  C10. A readable table without data rows is answered with an error, not
  with \<open>NoResults\<close>, on both paths and whatever the query: with a header,
  \<open>agg\<close> hands back the frame, whose \<open>.str\<close> raises \<open>'DataFrame' object
  has no attribute 'str'\<close>; without columns (an empty sheet) it returns an
  empty float Series, whose \<open>.str\<close> raises \<open>Can only use .str accessor with
  string values!\<close>.
\<close>

theorem search_no_rows:
  "rows t = [] \<Longrightarrow>
   search_csv rx query t = Failed (if columns t = [] then no_str_values else no_str_accessor) \<and>
   search_xlsx rx query t = Failed (if columns t = [] then no_str_values else no_str_accessor)"
  by (simp add: search_csv_def search_xlsx_def read_chunks_def)

theorem search_no_rows_witness:
  "search_csv re_compile ''q'' \<lparr>columns = [''a''], rows = []\<rparr> = Failed (if [''a''] = [] then no_str_values else no_str_accessor) \<and>
   search_xlsx re_compile ''q'' \<lparr>columns = [''a''], rows = []\<rparr> = Failed (if [''a''] = [] then no_str_values else no_str_accessor)"
  using search_no_rows[of "\<lparr>columns = [''a''], rows = []\<rparr>" re_compile "''q''"] by simp

text \<open>
  C11. A query with an unclosed group is a malformed pattern: for every
  column of strings, \<open>str.contains\<close> raises CPython's \<open>re.error\<close> with the
  text \<open>missing ), unterminated subpattern at position 0\<close>.
\<close>

theorem str_contains_open_group:
  "literal_query a \<Longrightarrow>
   str_contains re_compile (CHR ''('' # a) False (StrSeries ss) = Inl ''missing ), unterminated subpattern at position 0''"
  by (simp add: str_contains_def re_compile_open_group)

theorem str_contains_open_group_witness:
  "str_contains re_compile ''(Milan'' False (StrSeries [''Bob Milan'']) = Inl ''missing ), unterminated subpattern at position 0''"
  by (rule str_contains_open_group) (simp add: literal_query_def literal_char_def)

text \<open>
  C12. For a query without metacharacters, pandas' regular-expression
  \<open>str.contains(query, case=False)\<close> is the plain case-insensitive
  substring test: the mask the engine computes for a column of strings is
  whether each lower-cased string contains the lower-cased query.
\<close>

theorem str_contains_literal:
  "literal_query q \<Longrightarrow>
   str_contains re_compile q False (StrSeries ss) = Inr (map (\<lambda>s. contains (py_lower s) (py_lower q)) ss)"
  by (simp add: str_contains_def re_compile_literal search_literal_ic contains_ci_def)

theorem str_contains_literal_witness:
  "str_contains re_compile ''Milan'' False (StrSeries [''Bob Milan'', ''Alice Rome'']) =
   Inr (map (\<lambda>s. contains (py_lower s) (py_lower ''Milan'')) [''Bob Milan'', ''Alice Rome''])"
  by (rule str_contains_literal) (simp add: literal_query_def literal_char_def)

end
