(* ===== verification/Usage.thy ===== *)
theory Usage
  imports Prelude
begin

text \<open>
  The usage tracker of \<open>src/main.py\<close>: the in-memory dictionary
  \<open>USAGE\<close> (line 16) from e-mail to \<open>{"date", "count"}\<close>, the fixed
  \<open>DAILY_LIMIT\<close> (line 17), the check-then-increment at the start of the
  \<open>search\<close> handler (lines 127 to 139) and the count the \<open>app_page\<close>
  handler shows (lines 98 to 100).  A sequence of search requests by one
  user is the run \<open>quota_run\<close>; its lemmas bound the searches admitted on
  any day.
\<close>

section \<open>State and operations\<close>

text \<open>One record of \<open>USAGE\<close>: \<open>{"date": ..., "count": ...}\<close>.\<close>

record usage =
  u_date :: day
  u_count :: nat

type_synonym usage_db = "email \<rightharpoonup> usage"

definition DAILY_LIMIT :: nat where
  "DAILY_LIMIT = 10"

text \<open>The one way the check can refuse: line 135.\<close>

datatype quota_error = LimitReached

text \<open>
  Lines 128 to 139.  The record read by \<open>USAGE.get\<close> (a fresh one for an
  unknown user) is replaced by a fresh one when its date is not today; if its
  count has reached the limit the handler returns, leaving \<open>USAGE\<close> as it
  was; otherwise the count goes up by one and the record is stored.
\<close>

definition check_quota :: "usage_db \<Rightarrow> email \<Rightarrow> day \<Rightarrow> quota_error + usage_db" where
  "check_quota db email today =
     (let u0 = (case db email of None \<Rightarrow> \<lparr>u_date = today, u_count = 0\<rparr> | Some u \<Rightarrow> u);
          u = (if u_date u0 \<noteq> today then \<lparr>u_date = today, u_count = 0\<rparr> else u0)
      in if DAILY_LIMIT \<le> u_count u then Inl LimitReached
         else Inr (db(email \<mapsto> u\<lparr>u_count := u_count u + 1\<rparr>)))"

text \<open>
  Lines 99 and 100: the count \<open>app_page\<close> shows, read without looking at
  the record's date.
\<close>

definition shown_count :: "usage_db \<Rightarrow> email \<Rightarrow> nat" where
  "shown_count db email = (case db email of None \<Rightarrow> 0 | Some u \<Rightarrow> u_count u)"

section \<open>Abstract view\<close>

text \<open>The number of searches the stored record counts against \<open>today\<close>.\<close>

definition current_count :: "usage_db \<Rightarrow> email \<Rightarrow> day \<Rightarrow> nat" where
  "current_count db email today =
     (case db email of None \<Rightarrow> 0 | Some u \<Rightarrow> if u_date u = today then u_count u else 0)"

text \<open>The invariant: no stored count exceeds the limit.\<close>

definition quota_ok :: "usage_db \<Rightarrow> bool" where
  "quota_ok db \<longleftrightarrow> (\<forall>e u. db e = Some u \<longrightarrow> u_count u \<le> DAILY_LIMIT)"

text \<open>
  Consecutive search requests of one user on the days given: each request's
  day and whether the quota admitted it, and the final dictionary.
\<close>

fun quota_run :: "usage_db \<Rightarrow> email \<Rightarrow> day list \<Rightarrow> (day \<times> bool) list \<times> usage_db" where
  "quota_run db e [] = ([], db)"
| "quota_run db e (d # ds) =
     (case check_quota db e d of
        Inl _ \<Rightarrow> apfst (Cons (d, False)) (quota_run db e ds)
      | Inr db1 \<Rightarrow> apfst (Cons (d, True)) (quota_run db1 e ds))"

definition admitted_on :: "day \<Rightarrow> (day \<times> bool) list \<Rightarrow> nat" where
  "admitted_on x os = length (filter (\<lambda>(d, a). a \<and> d = x) os)"

section \<open>The check against the abstract view\<close>

lemma usage_count_upd:
  "u_date u = d \<Longrightarrow> u\<lparr>u_count := n\<rparr> = \<lparr>u_date = d, u_count = n\<rparr>"
  by (cases u) simp

lemma check_quota_current:
  "check_quota db e today =
     (if DAILY_LIMIT \<le> current_count db e today then Inl LimitReached
      else Inr (db(e \<mapsto> \<lparr>u_date = today, u_count = Suc (current_count db e today)\<rparr>)))"
  by (simp add: check_quota_def current_count_def Let_def usage_count_upd split: option.split)

lemma check_quota_InlD:
  "check_quota db e today = Inl err \<Longrightarrow> DAILY_LIMIT \<le> current_count db e today"
  by (simp add: check_quota_current split: if_splits)

lemma check_quota_InrD:
  "check_quota db e today = Inr db' \<Longrightarrow>
     current_count db e today < DAILY_LIMIT \<and>
     db' = db(e \<mapsto> \<lparr>u_date = today, u_count = Suc (current_count db e today)\<rparr>)"
  by (simp add: check_quota_current split: if_splits)

lemma current_count_upd_other [simp]:
  "e' \<noteq> e \<Longrightarrow> current_count (db(e \<mapsto> u)) e' d = current_count db e' d"
  by (simp add: current_count_def)

lemma current_count_upd_same [simp]:
  "current_count (db(e \<mapsto> u)) e d = (if u_date u = d then u_count u else 0)"
  by (simp add: current_count_def)

lemma current_count_le:
  "quota_ok db \<Longrightarrow> current_count db e d \<le> DAILY_LIMIT"
  by (auto simp: quota_ok_def current_count_def split: option.split)

lemma quota_ok_upd:
  "quota_ok db \<Longrightarrow> u_count u \<le> DAILY_LIMIT \<Longrightarrow> quota_ok (db(e \<mapsto> u))"
  by (simp add: quota_ok_def)

lemma quota_ok_empty [simp]: "quota_ok Map.empty"
  by (simp add: quota_ok_def)

lemma admitted_on_Cons [simp]:
  "admitted_on x ((d, a) # os) = (if a \<and> d = x then Suc (admitted_on x os) else admitted_on x os)"
  by (simp add: admitted_on_def)

lemma admitted_on_Nil [simp]: "admitted_on x [] = 0"
  by (simp add: admitted_on_def)

lemma quota_run_days: "map fst (fst (quota_run db e ds)) = ds"
  by (induction db e ds rule: quota_run.induct) (simp_all split: sum.split)

lemma quota_run_local:
  "db e = db' e \<Longrightarrow> fst (quota_run db e ds) = fst (quota_run db' e ds)"
proof (induction ds arbitrary: db db')
  case Nil
  then show ?case by simp
next
  case (Cons d ds)
  have "current_count db e d = current_count db' e d"
    using Cons.prems by (simp add: current_count_def)
  then show ?case
    using Cons.IH[of "db(e \<mapsto> \<lparr>u_date = d, u_count = Suc (current_count db e d)\<rparr>)"
                     "db'(e \<mapsto> \<lparr>u_date = d, u_count = Suc (current_count db e d)\<rparr>)"]
      Cons.IH[of db db'] Cons.prems
    by (simp add: check_quota_current fun_upd_def)
qed

lemma admitted_on_absent:
  "x \<notin> set (map fst os) \<Longrightarrow> admitted_on x os = 0"
  by (induction os) auto

section \<open>Runs of one user's searches\<close>

text \<open>
  The admitted searches of a run on day \<open>x\<close>, plus what the stored record
  already counts against \<open>x\<close>, never exceed the limit, provided the days of
  the run never go back before the stored record's date.
\<close>

lemma quota_run_bound:
  "quota_ok db \<Longrightarrow> sorted ds \<Longrightarrow> (\<forall>u. db e = Some u \<longrightarrow> (\<forall>d \<in> set ds. u_date u \<le> d)) \<Longrightarrow>
   admitted_on x (fst (quota_run db e ds)) + current_count db e x \<le> DAILY_LIMIT"
proof (induction ds arbitrary: db)
  case Nil
  then show ?case by (simp add: current_count_le)
next
  case (Cons d ds)
  show ?case
  proof (cases "check_quota db e d")
    case (Inl err)
    have "admitted_on x (fst (quota_run db e ds)) + current_count db e x \<le> DAILY_LIMIT"
      using Cons.IH[OF Cons.prems(1)] Cons.prems(2,3) by simp
    with Inl show ?thesis by simp
  next
    case (Inr db1)
    then have lt: "current_count db e d < DAILY_LIMIT"
      and db1: "db1 = db(e \<mapsto> \<lparr>u_date = d, u_count = Suc (current_count db e d)\<rparr>)"
      by (auto dest: check_quota_InrD)
    have ok1: "quota_ok db1"
      using Cons.prems(1) lt db1 by (simp add: quota_ok_upd)
    have pre: "\<forall>u. db1 e = Some u \<longrightarrow> (\<forall>d' \<in> set ds. u_date u \<le> d')"
      using Cons.prems(2) db1 by simp
    have sorted: "sorted ds"
      using Cons.prems(2) by simp
    have rest: "admitted_on x (fst (quota_run db1 e ds)) + current_count db1 e x \<le> DAILY_LIMIT"
      by (rule Cons.IH[OF ok1 sorted pre])
    show ?thesis
    proof (cases "d = x")
      case True
      with rest db1 Inr show ?thesis by simp
    next
      case False
      show ?thesis
      proof (cases "x < d")
        case True
        with Cons.prems(2) have "x \<notin> set (map fst (fst (quota_run db1 e ds)))"
          by (auto simp: quota_run_days)
        then have "admitted_on x (fst (quota_run db1 e ds)) = 0"
          by (rule admitted_on_absent)
        with Inr False current_count_le[OF Cons.prems(1)] show ?thesis by simp
      next
        case later: False
        with False Cons.prems(3) have "current_count db e x = 0"
          by (fastforce simp: current_count_def split: option.split)
        with rest db1 Inr False show ?thesis by simp
      qed
    qed
  qed
qed

section \<open>Runs on one day and across days\<close>

lemma quota_run_same_day:
  "current_count db e d = c \<Longrightarrow>
   fst (quota_run db e (replicate n d)) = map (\<lambda>i. (d, c + i < DAILY_LIMIT)) [0..<n]"
proof (induction n arbitrary: db c)
  case 0
  then show ?case by simp
next
  case (Suc n)
  show ?case
  proof (cases "DAILY_LIMIT \<le> c")
    case True
    then have "check_quota db e d = Inl LimitReached"
      using Suc.prems by (simp add: check_quota_current)
    with Suc.IH[OF Suc.prems] True show ?thesis
      by (simp add: map_replicate_const replicate_append_same del: upt_Suc)
  next
    case False
    let ?db1 = "db(e \<mapsto> \<lparr>u_date = d, u_count = Suc c\<rparr>)"
    from False Suc.prems have q: "check_quota db e d = Inr ?db1"
      by (simp add: check_quota_current)
    have "current_count ?db1 e d = Suc c" by simp
    from Suc.IH[OF this] q False show ?thesis
      by (simp add: map_upt_Suc fun_upd_def del: upt_Suc)
  qed
qed

lemma quota_run_same_day_state:
  "current_count db e d = c \<Longrightarrow> c + n \<le> DAILY_LIMIT \<Longrightarrow> 0 < n \<Longrightarrow>
   snd (quota_run db e (replicate n d)) e = Some \<lparr>u_date = d, u_count = c + n\<rparr>"
proof (induction n arbitrary: db c)
  case 0
  then show ?case by simp
next
  case (Suc n)
  let ?db1 = "db(e \<mapsto> \<lparr>u_date = d, u_count = Suc c\<rparr>)"
  from Suc.prems have q: "check_quota db e d = Inr ?db1"
    by (simp add: check_quota_current)
  show ?case
  proof (cases "n = 0")
    case True
    with q show ?thesis by simp
  next
    case False
    have "current_count ?db1 e d = Suc c" by simp
    moreover have "Suc c + n \<le> DAILY_LIMIT" using Suc.prems(2) by simp
    ultimately have "snd (quota_run ?db1 e (replicate n d)) e = Some \<lparr>u_date = d, u_count = Suc c + n\<rparr>"
      using Suc.IH False by blast
    with q show ?thesis by simp
  qed
qed

lemma quota_run_append:
  "fst (quota_run db e (xs @ ys)) = fst (quota_run db e xs) @ fst (quota_run (snd (quota_run db e xs)) e ys)"
  by (induction xs arbitrary: db) (simp_all split: sum.split)

lemma admitted_on_append [simp]: "admitted_on x (os @ os') = admitted_on x os + admitted_on x os'"
  by (simp add: admitted_on_def)

lemma admitted_on_same_day: "admitted_on d (map (\<lambda>i. (d, i < n)) [0..<n]) = n"
  by (simp add: admitted_on_def filter_map comp_def)

section \<open>Properties of the quota\<close>

text \<open>
  C13. The check keeps the invariant: when it admits a search, every stored
  count is still at most \<open>DAILY_LIMIT\<close>.
\<close>

theorem check_quota_preserves_ok:
  "quota_ok db \<Longrightarrow> check_quota db e d = Inr db' \<Longrightarrow> quota_ok db'"
  by (auto dest!: check_quota_InrD intro!: quota_ok_upd)

theorem check_quota_preserves_ok_witness:
  "quota_ok (Map.empty(''a@b.it'' \<mapsto> \<lparr>u_date = 3, u_count = 1\<rparr>))"
proof -
  have "check_quota Map.empty ''a@b.it'' 3 = Inr (Map.empty(''a@b.it'' \<mapsto> \<lparr>u_date = 3, u_count = 1\<rparr>))"
    by (simp add: check_quota_def DAILY_LIMIT_def)
  with quota_ok_empty show ?thesis by (rule check_quota_preserves_ok)
qed

text \<open>
  C14. The check refuses exactly when the searches already counted against
  today have reached the limit; a record of another day counts nothing.
\<close>

theorem check_quota_denied_iff:
  "check_quota db e d = Inl LimitReached \<longleftrightarrow> DAILY_LIMIT \<le> current_count db e d"
  by (simp add: check_quota_current)

text \<open>
  C15. Searches on one day from a record that counts \<open>c\<close> against it: the
  \<open>i\<close>-th is admitted exactly when \<open>c + i\<close> is below the limit.  From a
  fresh day, the first ten are admitted and every later one refused; a refusal
  changes nothing, so the refusals go on.
\<close>

theorem check_quota_same_day_run:
  "current_count db e d = c \<Longrightarrow>
   fst (quota_run db e (replicate n d)) = map (\<lambda>i. (d, c + i < DAILY_LIMIT)) [0..<n]"
  by (rule quota_run_same_day)

theorem check_quota_same_day_run_witness:
  "fst (quota_run Map.empty ''u@x.it'' (replicate 11 7)) = replicate 10 (7, True) @ [(7, False)]"
proof -
  have "current_count Map.empty ''u@x.it'' 7 = 0" by (simp add: current_count_def)
  from check_quota_same_day_run[OF this, of 11] show ?thesis
    by (simp add: DAILY_LIMIT_def upt_rec numeral_eq_Suc)
qed

text \<open>
  C16. A new day resets the count: a record of another day, even at the
  limit, admits the search and is replaced by today's record with count 1.
\<close>

theorem check_quota_new_day:
  "db e = Some u \<Longrightarrow> u_date u \<noteq> d \<Longrightarrow> check_quota db e d = Inr (db(e \<mapsto> \<lparr>u_date = d, u_count = 1\<rparr>))"
  by (simp add: check_quota_current current_count_def DAILY_LIMIT_def)

theorem check_quota_new_day_witness:
  "check_quota (Map.empty(''u'' \<mapsto> \<lparr>u_date = 4, u_count = 10\<rparr>)) ''u'' 5
     = Inr (Map.empty(''u'' \<mapsto> \<lparr>u_date = 5, u_count = 1\<rparr>))"
  using check_quota_new_day[of "Map.empty(''u'' \<mapsto> \<lparr>u_date = 4, u_count = 10\<rparr>)" "''u''"
      "\<lparr>u_date = 4, u_count = 10\<rparr>" 5]
  by simp

text \<open>
  C17. The daily limit holds over any run whose days never go back: a user
  with no record is admitted at most \<open>DAILY_LIMIT\<close> searches on any one day.
\<close>

theorem quota_daily_bound:
  "sorted ds \<Longrightarrow> admitted_on x (fst (quota_run Map.empty e ds)) \<le> DAILY_LIMIT"
  using quota_run_bound[of Map.empty ds e x] by simp

theorem quota_daily_bound_witness:
  "admitted_on 5 (fst (quota_run Map.empty ''u'' [4, 5, 5, 5, 5, 5, 5, 5, 5, 5, 5, 5, 5, 6])) \<le> DAILY_LIMIT"
  by (rule quota_daily_bound) simp

text \<open>
  C18. The bound needs the clock to be monotone: the check resets the count
  on any change of date, so for any two different days \<open>d\<close> and \<open>d'\<close>, a
  user with nothing counted against \<open>d\<close> who searches ten times on \<open>d\<close>, once
  on \<open>d'\<close> and ten more times on \<open>d\<close> again (the clock set back) is admitted
  all twenty searches on day \<open>d\<close>.
\<close>

theorem quota_clock_back:
  assumes "d' \<noteq> d" and "current_count db e d = 0"
  shows "admitted_on d (fst (quota_run db e (replicate DAILY_LIMIT d @ d' # replicate DAILY_LIMIT d))) =
           2 * DAILY_LIMIT"
proof -
  let ?db1 = "snd (quota_run db e (replicate DAILY_LIMIT d))"
  let ?db2 = "?db1(e \<mapsto> \<lparr>u_date = d', u_count = Suc 0\<rparr>)"
  have r1: "fst (quota_run db e (replicate DAILY_LIMIT d)) = map (\<lambda>i. (d, i < DAILY_LIMIT)) [0..<DAILY_LIMIT]"
    using quota_run_same_day[OF assms(2)] by simp
  have "?db1 e = Some \<lparr>u_date = d, u_count = DAILY_LIMIT\<rparr>"
    using quota_run_same_day_state[OF assms(2), of DAILY_LIMIT] by (simp add: DAILY_LIMIT_def)
  with assms(1) have q: "check_quota ?db1 e d' = Inr ?db2"
    by (simp add: check_quota_current current_count_def DAILY_LIMIT_def)
  have "current_count ?db2 e d = 0" using assms(1) by simp
  then have r2: "fst (quota_run ?db2 e (replicate DAILY_LIMIT d)) = map (\<lambda>i. (d, i < DAILY_LIMIT)) [0..<DAILY_LIMIT]"
    using quota_run_same_day by simp
  show ?thesis
    using assms(1) q by (simp add: quota_run_append r1 r2 admitted_on_same_day)
qed

theorem quota_clock_back_witness:
  "admitted_on 1 (fst (quota_run Map.empty ''u'' (replicate DAILY_LIMIT 1 @ 2 # replicate DAILY_LIMIT 1))) =
     2 * DAILY_LIMIT"
  by (rule quota_clock_back) (simp_all add: current_count_def)

end
