(* ===== verification/Auth.thy ===== *)
theory Auth
  imports Prelude
begin

text \<open>
  Identity and session of \<open>src/main.py\<close>.  The in-memory dictionary
  \<open>USERS\<close> (line 15) maps an e-mail to \<open>{"otp": code}\<close>; \<open>send_otp\<close>
  (lines 49 to 66) draws a six-digit code with \<open>random.choices\<close> and
  stores it, overwriting any earlier one; \<open>verify_otp\<close> (lines 72 to 77)
  compares without consuming.  The session is Starlette's session
  dictionary: \<open>verify_otp\<close> sets its \<open>"email"\<close> key (line 75), \<open>logout\<close>
  clears it (line 85), and the protected handlers read it with
  \<open>request.session.get("email")\<close> and Python truthiness (lines 25, 94 to
  96, 123 to 125).  The random source is an input: \<open>draws i\<close> is the
  number behind the \<open>i\<close>-th pick of \<open>random.choices\<close>, reduced to an
  index into the population, so that every sequence of picks the library
  can make is the outcome of some input.
\<close>

section \<open>The OTP registry\<close>

record user =
  otp :: string

type_synonym users_db = "email \<rightharpoonup> user"

text \<open>\<open>string.digits\<close>.\<close>

definition string_digits :: string where
  "string_digits = ''0123456789''"

text \<open>
  \<open>"".join(random.choices(string.digits, k=6))\<close> (line 51): six picks,
  each the element of \<open>string.digits\<close> at the drawn index.
\<close>

definition gen_otp :: "(nat \<Rightarrow> nat) \<Rightarrow> string" where
  "gen_otp draws = map (\<lambda>i. string_digits ! (draws i mod length string_digits)) [0..<6]"

text \<open>Lines 51 and 52: the code is stored for the e-mail and returned.\<close>

definition send_otp :: "users_db \<Rightarrow> email \<Rightarrow> (nat \<Rightarrow> nat) \<Rightarrow> users_db \<times> string" where
  "send_otp users email draws =
     (let code = gen_otp draws in (users(email \<mapsto> \<lparr>otp = code\<rparr>), code))"

text \<open>Line 74: \<open>email in USERS and USERS[email]["otp"] == otp\<close>.\<close>

definition verify_otp :: "users_db \<Rightarrow> email \<Rightarrow> string \<Rightarrow> bool" where
  "verify_otp users email code =
     (case users email of None \<Rightarrow> False | Some u \<Rightarrow> otp u = code)"

section \<open>The session\<close>

text \<open>The session dictionary of the request (a signed cookie).\<close>

type_synonym session = "string \<rightharpoonup> string"

text \<open>
  \<open>email = request.session.get("email")\<close> followed by \<open>if not email\<close>:
  a missing key and the empty string both count as not logged in.
\<close>

definition logged_in :: "session \<Rightarrow> email option" where
  "logged_in s = (case s ''email'' of None \<Rightarrow> None | Some e \<Rightarrow> if e = [] then None else Some e)"

text \<open>Line 75: \<open>request.session["email"] = email\<close>.\<close>

definition establish :: "session \<Rightarrow> email \<Rightarrow> session" where
  "establish s email = s(''email'' \<mapsto> email)"

text \<open>Line 85: \<open>request.session.clear()\<close>.\<close>

definition clear_session :: "session \<Rightarrow> session" where
  "clear_session s = Map.empty"

section \<open>Lemmas\<close>

lemma verify_otp_upd:
  "verify_otp (users(e \<mapsto> u)) e' c = (if e' = e then otp u = c else verify_otp users e' c)"
  by (simp add: verify_otp_def)

lemma verify_otp_Some:
  "verify_otp users e c \<longleftrightarrow> users e = Some \<lparr>otp = c\<rparr>"
  by (auto simp: verify_otp_def split: option.split)

lemma logged_in_establish [simp]:
  "logged_in (establish s e) = (if e = [] then None else Some e)"
  by (simp add: logged_in_def establish_def)

lemma logged_in_clear [simp]: "logged_in (clear_session s) = None"
  by (simp add: logged_in_def clear_session_def)

section \<open>Properties of the OTP registry\<close>

text \<open>
  C20. Issue then verify: after a code is issued for an e-mail, a
  verification for that e-mail succeeds exactly with the issued code (any
  earlier code is overwritten), and verifications for other e-mails are as
  before.
\<close>

theorem send_otp_verify:
  "verify_otp (fst (send_otp users e draws)) e' c \<longleftrightarrow>
   (if e' = e then c = gen_otp draws else verify_otp users e' c)"
  by (auto simp: send_otp_def verify_otp_upd Let_def)

text \<open>
  C21. An issued code is six characters long and made of the decimal
  digits \<open>0\<close> to \<open>9\<close>, whatever \<open>random.choices\<close> draws.
\<close>

theorem gen_otp_format:
  "length (gen_otp draws) = 6 \<and> set (gen_otp draws) \<subseteq> set ''0123456789''"
proof -
  have "string_digits ! (draws i mod length string_digits) \<in> set ''0123456789''" for i
    by (simp add: string_digits_def del: set_simps)
  then show ?thesis by (auto simp: gen_otp_def)
qed

end
