(* ===== verification/App.thy ===== *)
theory App
  imports Search Usage Auth
begin

text \<open>
  The HTTP handlers of \<open>src/main.py\<close> as one step function over the
  process-wide state (\<open>USERS\<close> and \<open>USAGE\<close>) and the requesting client's
  session.  Each constructor of \<open>request\<close> is one route with its form
  fields and the environment it reads (\<open>date.today()\<close>, the draws of
  \<open>random.choices\<close>); each constructor of \<open>response\<close> is one page or
  redirect the handlers return, with the values they insert into the HTML.
  A run is a list of requests of several clients, each holding its own
  session cookie.
\<close>

section \<open>State, requests and responses\<close>

record app_state =
  users :: users_db
  usage :: usage_db

definition init_state :: app_state where
  "init_state = \<lparr>users = Map.empty, usage = Map.empty\<rparr>"

datatype request =
    Root
  | LoginPage
  | SendOtp email "nat \<Rightarrow> nat"
  | VerifyOtp email string
  | Logout
  | AppPage
  | SearchFile day upload string

text \<open>
  \<open>Redirect status location\<close> is a \<open>RedirectResponse\<close> (status 307 unless
  the code says otherwise); the other constructors are the HTML pages.
\<close>

datatype response =
    Redirect nat string
  | LoginForm
  | OtpPage email string
  | WrongCode
  | Welcome email nat nat
  | LimitPage
  | SearchPage string search_outcome

section \<open>The handlers\<close>

text \<open>Lines 23 to 27.\<close>

definition root :: "session \<Rightarrow> response" where
  "root s = (if logged_in s \<noteq> None then Redirect 307 ''/app'' else Redirect 307 ''/login'')"

text \<open>Lines 49 to 66.\<close>

definition send_otp_handler :: "app_state \<Rightarrow> email \<Rightarrow> (nat \<Rightarrow> nat) \<Rightarrow> app_state \<times> response" where
  "send_otp_handler st email draws =
     (let (us, code) = send_otp (users st) email draws
      in (st\<lparr>users := us\<rparr>, OtpPage email code))"

text \<open>Lines 72 to 77.\<close>

definition verify_otp_handler :: "app_state \<Rightarrow> session \<Rightarrow> email \<Rightarrow> string \<Rightarrow> session \<times> response" where
  "verify_otp_handler st s email code =
     (if verify_otp (users st) email code then (establish s email, Redirect 302 ''/app'')
      else (s, WrongCode))"

text \<open>Lines 92 to 115.\<close>

definition app_page :: "app_state \<Rightarrow> session \<Rightarrow> response" where
  "app_page st s =
     (case logged_in s of
        None \<Rightarrow> Redirect 307 ''/login''
      | Some email \<Rightarrow> Welcome email (shown_count (usage st) email) DAILY_LIMIT)"

text \<open>
  Lines 121 to 193: login check, quota check and increment, then the
  search proper.
\<close>

definition search_handler :: "regex \<Rightarrow> app_state \<Rightarrow> session \<Rightarrow> day \<Rightarrow> upload \<Rightarrow> string \<Rightarrow> app_state \<times> response" where
  "search_handler rx st s today up query =
     (case logged_in s of
        None \<Rightarrow> (st, Redirect 307 ''/login'')
      | Some email \<Rightarrow>
          (case check_quota (usage st) email today of
             Inl LimitReached \<Rightarrow> (st, LimitPage)
           | Inr db \<Rightarrow> (st\<lparr>usage := db\<rparr>, SearchPage query (search_upload rx query up))))"

text \<open>The routing table: one request of a client holding session \<open>s\<close>.\<close>

fun handle :: "regex \<Rightarrow> app_state \<Rightarrow> session \<Rightarrow> request \<Rightarrow> app_state \<times> session \<times> response" where
  "handle rx st s Root = (st, s, root s)"
| "handle rx st s LoginPage = (st, s, LoginForm)"
| "handle rx st s (SendOtp email draws) =
     (let (st', r) = send_otp_handler st email draws in (st', s, r))"
| "handle rx st s (VerifyOtp email code) =
     (let (s', r) = verify_otp_handler st s email code in (st, s', r))"
| "handle rx st s Logout = (st, clear_session s, Redirect 307 ''/login'')"
| "handle rx st s AppPage = (st, s, app_page st s)"
| "handle rx st s (SearchFile today up query) =
     (let (st', r) = search_handler rx st s today up query in (st', s, r))"

section \<open>Runs of several clients\<close>

type_synonym client = nat

text \<open>
  The server state and every client's session cookie; a run processes
  the requests one at a time (the handlers do not \<open>await\<close> between reading
  and writing \<open>USAGE\<close>, so on the single event loop each handler runs to
  completion) and collects the responses.
\<close>

record world =
  server :: app_state
  cookies :: "client \<Rightarrow> session"

fun run :: "regex \<Rightarrow> world \<Rightarrow> (client \<times> request) list \<Rightarrow> world \<times> response list" where
  "run rx w [] = (w, [])"
| "run rx w ((c, req) # rs) =
     (let (st', s', r) = handle rx (server w) (cookies w c) req;
          (w', out) = run rx \<lparr>server = st', cookies = (cookies w)(c := s')\<rparr> rs
      in (w', r # out))"

definition init_world :: world where
  "init_world = \<lparr>server = init_state, cookies = (\<lambda>_. Map.empty)\<rparr>"

section \<open>Lemmas on the handlers\<close>

lemma world_eta [simp]: "\<lparr>server = server w, cookies = cookies w\<rparr> = w"
  by (cases w) simp

lemma search_handler_logged_out:
  "logged_in s = None \<Longrightarrow> search_handler rx st s today up query = (st, Redirect 307 ''/login'')"
  by (simp add: search_handler_def)

lemma search_handler_logged_in:
  "logged_in s = Some e \<Longrightarrow>
   search_handler rx st s today up query =
     (if DAILY_LIMIT \<le> current_count (usage st) e today then (st, LimitPage)
      else (st\<lparr>usage := (usage st)(e \<mapsto> \<lparr>u_date = today, u_count = Suc (current_count (usage st) e today)\<rparr>)\<rparr>,
            SearchPage query (search_upload rx query up)))"
  by (simp add: search_handler_def check_quota_current)

lemma search_handler_users [simp]:
  "users (fst (search_handler rx st s today up query)) = users st"
  by (simp add: search_handler_def split: option.split sum.split quota_error.split)

lemma handle_quota_ok:
  assumes ok: "quota_ok (usage st)"
  shows "quota_ok (usage (fst (handle rx st s req)))"
proof (cases req)
  case (SendOtp e ds)
  then show ?thesis
    using ok by (simp add: send_otp_handler_def split: prod.split)
next
  case (VerifyOtp e c)
  then show ?thesis
    using ok by (simp split: prod.split)
next
  case (SearchFile d up q)
  then show ?thesis
    using ok
    by (auto simp: search_handler_def dest!: check_quota_InrD intro!: quota_ok_upd
             split: option.split sum.split quota_error.split prod.split)
qed (use ok in simp_all)

section \<open>Lemmas on runs\<close>

text \<open>
  A property of worlds that every request keeps holds after every run: the
  induction over the requests that the invariants of runs share.
\<close>

lemma run_invariant:
  assumes "P w"
    and step: "\<And>w c req st' s' r. P w \<Longrightarrow> handle rx (server w) (cookies w c) req = (st', s', r) \<Longrightarrow>
                 P \<lparr>server = st', cookies = (cookies w)(c := s')\<rparr>"
  shows "P (fst (run rx w rs))"
  using assms(1)
proof (induction rs arbitrary: w)
  case (Cons cr rs)
  obtain c req where cr: "cr = (c, req)" by (cases cr)
  obtain st' s' r where h: "handle rx (server w) (cookies w c) req = (st', s', r)"
    by (cases "handle rx (server w) (cookies w c) req")
  from step[OF Cons.prems h] have "P (fst (run rx \<lparr>server = st', cookies = (cookies w)(c := s')\<rparr> rs))"
    by (rule Cons.IH)
  with cr h show ?case by (simp add: prod.case_eq_if)
qed simp

lemma run_quota_ok_gen:
  "quota_ok (usage (server w)) \<Longrightarrow> quota_ok (usage (server (fst (run rx w rs))))"
proof (rule run_invariant[where P = "\<lambda>w. quota_ok (usage (server w))"])
  fix w' c req st' s' r
  assume "quota_ok (usage (server w'))" and "handle rx (server w') (cookies w' c) req = (st', s', r)"
  then show "quota_ok (usage (server \<lparr>server = st', cookies = (cookies w')(c := s')\<rparr>))"
    using handle_quota_ok[of "server w'" rx "cookies w' c" req] by simp
qed

section \<open>Properties of the application\<close>

text \<open>
  C22. In every run of any number of clients from the initial state, every
  count stored in \<open>USAGE\<close> stays at most \<open>DAILY_LIMIT\<close>.
\<close>

theorem run_quota_ok:
  "quota_ok (usage (server (fst (run rx init_world rs))))"
  by (rule run_quota_ok_gen) (simp add: init_world_def init_state_def)

text \<open>
  C23. Protected pages without a logged-in session: the landing page and
  the search redirect to \<open>/login\<close> and change nothing, in particular no
  search is charged to anyone.
\<close>

theorem protected_redirect:
  "logged_in s = None \<Longrightarrow>
   handle rx st s AppPage = (st, s, Redirect 307 ''/login'') \<and>
   handle rx st s (SearchFile today up query) = (st, s, Redirect 307 ''/login'')"
  by (simp add: app_page_def search_handler_logged_out)

theorem protected_redirect_witness:
  "handle re_compile init_state Map.empty AppPage = (init_state, Map.empty, Redirect 307 ''/login'') \<and>
   handle re_compile init_state Map.empty (SearchFile 1 \<lparr>filename = ''a.csv'', csv_read = Inl ''x'', excel_read = Inl ''y''\<rparr> ''q'')
     = (init_state, Map.empty, Redirect 307 ''/login'')"
  by (rule protected_redirect) (simp add: logged_in_def)

text \<open>
  C24. A request can log a session in as \<open>e\<close> only by presenting, for
  \<open>e\<close>, the code stored in \<open>USERS\<close>: a session that is logged in as
  \<open>e\<close> after a request was so before it, or the request verified \<open>e\<close>'s
  current code.
\<close>

theorem login_requires_code:
  "logged_in (fst (snd (handle rx st s req))) = Some e \<Longrightarrow>
   logged_in s = Some e \<or> (\<exists>c. req = VerifyOtp e c \<and> users st e = Some \<lparr>otp = c\<rparr>)"
  by (cases req)
     (auto simp: verify_otp_handler_def send_otp_handler_def verify_otp_Some
           split: prod.splits if_splits)

theorem login_requires_code_witness:
  "logged_in (Map.empty :: session) = Some ''u@x.it'' \<or>
   (\<exists>c. VerifyOtp ''u@x.it'' ''042917'' = VerifyOtp ''u@x.it'' c \<and>
        users \<lparr>users = Map.empty(''u@x.it'' \<mapsto> \<lparr>otp = ''042917''\<rparr>), usage = Map.empty\<rparr> ''u@x.it'' = Some \<lparr>otp = c\<rparr>)"
  by (rule login_requires_code[of re_compile "\<lparr>users = Map.empty(''u@x.it'' \<mapsto> \<lparr>otp = ''042917''\<rparr>), usage = Map.empty\<rparr>" Map.empty "VerifyOtp ''u@x.it'' ''042917''"])
     (simp add: verify_otp_handler_def verify_otp_def)

text \<open>
  C25. Verifying never consumes the code: a verification request leaves
  the server state unchanged and redirects to \<open>/app\<close> exactly when the
  code is the one stored for the e-mail, so the same code can be replayed
  until the next issue.
\<close>

theorem verify_replay:
  "fst (handle rx st s (VerifyOtp e c)) = st \<and>
   (snd (snd (handle rx st s (VerifyOtp e c))) = Redirect 302 ''/app'' \<longleftrightarrow> users st e = Some \<lparr>otp = c\<rparr>)"
  by (simp add: verify_otp_handler_def verify_otp_Some)

text \<open>
  C26. A refused search changes nothing: for a logged-in user whose
  searches counted against today have reached the limit, the search answers
  the limit page and leaves the state, the session and the count as they
  were.
\<close>

theorem search_denied_unchanged:
  "logged_in s = Some e \<Longrightarrow> DAILY_LIMIT \<le> current_count (usage st) e today \<Longrightarrow>
   handle rx st s (SearchFile today up query) = (st, s, LimitPage)"
  by (simp add: search_handler_logged_in)

theorem search_denied_unchanged_witness:
  "handle re_compile \<lparr>users = Map.empty, usage = Map.empty(''u'' \<mapsto> \<lparr>u_date = 9, u_count = 10\<rparr>)\<rparr>
     (Map.empty(''email'' \<mapsto> ''u'')) (SearchFile 9 \<lparr>filename = ''a.csv'', csv_read = Inl ''x'', excel_read = Inl ''y''\<rparr> ''q'')
   = (\<lparr>users = Map.empty, usage = Map.empty(''u'' \<mapsto> \<lparr>u_date = 9, u_count = 10\<rparr>)\<rparr>,
      Map.empty(''email'' \<mapsto> ''u''), LimitPage)"
  by (rule search_denied_unchanged[of _ "''u''"]) (simp_all add: logged_in_def current_count_def DAILY_LIMIT_def)

text \<open>
  C27. An admitted search is charged before the file is looked at: whatever
  the upload (a supported file, an unsupported extension, a file the reader
  rejects), the count for today goes up by one and the answer is the search
  outcome.
\<close>

theorem search_charged_first:
  "logged_in s = Some e \<Longrightarrow> current_count (usage st) e today < DAILY_LIMIT \<Longrightarrow>
   handle rx st s (SearchFile today up query) =
     (st\<lparr>usage := (usage st)(e \<mapsto> \<lparr>u_date = today, u_count = Suc (current_count (usage st) e today)\<rparr>)\<rparr>,
      s, SearchPage query (search_upload rx query up))"
  by (simp add: search_handler_logged_in)

theorem search_charged_first_witness:
  "handle re_compile init_state (Map.empty(''email'' \<mapsto> ''u''))
     (SearchFile 9 \<lparr>filename = ''notes.txt'', csv_read = Inl ''x'', excel_read = Inl ''y''\<rparr> ''q'')
   = (\<lparr>users = Map.empty, usage = Map.empty(''u'' \<mapsto> \<lparr>u_date = 9, u_count = 1\<rparr>)\<rparr>,
      Map.empty(''email'' \<mapsto> ''u''), SearchPage ''q'' Unsupported)"
proof -
  have "search_upload re_compile ''q'' \<lparr>filename = ''notes.txt'', csv_read = Inl ''x'', excel_read = Inl ''y''\<rparr> = Unsupported"
    by (simp add: search_upload_def model_simps char_of_eq_iff)
  with search_charged_first[of "Map.empty(''email'' \<mapsto> ''u'')" "''u''" init_state 9]
  show ?thesis
    by (simp add: logged_in_def current_count_def DAILY_LIMIT_def init_state_def)
qed

text \<open>
  C28. Users do not share quota or codes: a search by one user changes
  neither another user's usage record nor the OTP registry.
\<close>

theorem search_isolation:
  "logged_in s = Some e \<Longrightarrow> e' \<noteq> e \<Longrightarrow>
   usage (fst (handle rx st s (SearchFile today up query))) e' = usage st e' \<and>
   users (fst (handle rx st s (SearchFile today up query))) = users st"
  by (simp add: search_handler_logged_in split: prod.split)

theorem search_isolation_witness:
  "usage (fst (handle re_compile init_state (Map.empty(''email'' \<mapsto> ''a''))
     (SearchFile 2 \<lparr>filename = ''f.csv'', csv_read = Inl ''x'', excel_read = Inl ''y''\<rparr> ''q''))) ''b'' = usage init_state ''b'' \<and>
   users (fst (handle re_compile init_state (Map.empty(''email'' \<mapsto> ''a''))
     (SearchFile 2 \<lparr>filename = ''f.csv'', csv_read = Inl ''x'', excel_read = Inl ''y''\<rparr> ''q''))) = users init_state"
  by (rule search_isolation[of _ "''a''"]) (simp_all add: logged_in_def)

text \<open>
  C19. The landing page shows a stale count: for a user whose stored record
  is of another day, \<open>/app\<close> shows the stored count (ten of ten, say)
  while the quota counts nothing against today, so the next search is
  admitted and answered with the search outcome.
\<close>

theorem app_page_stale_count:
  "logged_in s = Some e \<Longrightarrow> usage st e = Some u \<Longrightarrow> u_date u \<noteq> today \<Longrightarrow>
   snd (snd (handle rx st s AppPage)) = Welcome e (u_count u) DAILY_LIMIT \<and>
   snd (snd (handle rx st s (SearchFile today up query))) = SearchPage query (search_upload rx query up)"
  by (simp add: app_page_def shown_count_def search_handler_logged_in current_count_def DAILY_LIMIT_def)

theorem app_page_stale_count_witness:
  "snd (snd (handle re_compile \<lparr>users = Map.empty, usage = Map.empty(''u'' \<mapsto> \<lparr>u_date = 4, u_count = 10\<rparr>)\<rparr>
     (Map.empty(''email'' \<mapsto> ''u'')) AppPage)) = Welcome ''u'' (u_count \<lparr>u_date = 4, u_count = 10\<rparr>) DAILY_LIMIT \<and>
   snd (snd (handle re_compile \<lparr>users = Map.empty, usage = Map.empty(''u'' \<mapsto> \<lparr>u_date = 4, u_count = 10\<rparr>)\<rparr>
     (Map.empty(''email'' \<mapsto> ''u'')) (SearchFile 5 \<lparr>filename = ''a.txt'', csv_read = Inl ''x'', excel_read = Inl ''y''\<rparr> ''q'')))
   = SearchPage ''q'' (search_upload re_compile ''q'' \<lparr>filename = ''a.txt'', csv_read = Inl ''x'', excel_read = Inl ''y''\<rparr>)"
  by (rule app_page_stale_count[of _ "''u''" _ "\<lparr>u_date = 4, u_count = 10\<rparr>"]) (simp_all add: logged_in_def)

text \<open>
  C29. The flow of the specification, for every user and every input: a
  client asks for a code, logs in with it, opens the landing page and
  searches; a second client replays the same code and is logged in too,
  and its landing page shows the one search charged.  The answers are the
  code's page, the redirect to \<open>/app\<close>, the greeting with count 0, the
  search outcome, the redirect again and the greeting with count 1.
\<close>

theorem spec_flow:
  "e \<noteq> [] \<Longrightarrow> c' \<noteq> c \<Longrightarrow>
   snd (run rx init_world
     [(c, SendOtp e draws), (c, VerifyOtp e (gen_otp draws)), (c, AppPage),
      (c, SearchFile d up query), (c', VerifyOtp e (gen_otp draws)), (c', AppPage)])
   = [OtpPage e (gen_otp draws), Redirect 302 ''/app'', Welcome e 0 DAILY_LIMIT,
      SearchPage query (search_upload rx query up), Redirect 302 ''/app'', Welcome e 1 DAILY_LIMIT]"
  by (simp add: init_world_def init_state_def send_otp_handler_def send_otp_def verify_otp_handler_def
      verify_otp_def app_page_def shown_count_def search_handler_logged_in current_count_def
      DAILY_LIMIT_def Let_def)

theorem spec_flow_witness:
  "snd (run re_compile init_world
     [(0, SendOtp ''ada@x.it'' (nth [0, 4, 2, 9, 1, 7])), (0, VerifyOtp ''ada@x.it'' (gen_otp (nth [0, 4, 2, 9, 1, 7]))),
      (0, AppPage),
      (0, SearchFile 20000 \<lparr>filename = ''cities.csv'',
            csv_read = Inr \<lparr>columns = [''name'', ''city''],
              rows = [[Some ''Alice'', Some ''Rome''], [Some ''Bob'', Some ''Milan''],
                      [Some ''Carol'', Some ''Turin'']]\<rparr>,
            excel_read = Inl ''not a zip file''\<rparr> ''mil''),
      (1, VerifyOtp ''ada@x.it'' (gen_otp (nth [0, 4, 2, 9, 1, 7]))), (1, AppPage)])
   = [OtpPage ''ada@x.it'' (gen_otp (nth [0, 4, 2, 9, 1, 7])), Redirect 302 ''/app'', Welcome ''ada@x.it'' 0 DAILY_LIMIT,
      SearchPage ''mil'' (search_upload re_compile ''mil'' \<lparr>filename = ''cities.csv'',
            csv_read = Inr \<lparr>columns = [''name'', ''city''],
              rows = [[Some ''Alice'', Some ''Rome''], [Some ''Bob'', Some ''Milan''],
                      [Some ''Carol'', Some ''Turin'']]\<rparr>,
            excel_read = Inl ''not a zip file''\<rparr>),
      Redirect 302 ''/app'', Welcome ''ada@x.it'' 1 DAILY_LIMIT]"
  by (rule spec_flow) simp_all

end
