(* ===== verification/Clients.thy ===== *)
theory Clients
  imports App
begin

text \<open>
  The deployed application as a state machine with an unknown environment:
  any client may send any request at any time, and a client may come to hold
  another client's session cookie (Starlette's \<open>SessionMiddleware\<close>, line
  12, keeps the whole session in the signed cookie, so a copied cookie is a
  copied session).  \<open>reach\<close> is the set of worlds the server and the
  clients can get into; its invariants are proved by rule induction.
\<close>

section \<open>Reachable worlds\<close>

inductive reach :: "regex \<Rightarrow> world \<Rightarrow> bool" for rx :: regex where
  init: "reach rx init_world"
| request: "reach rx w \<Longrightarrow> handle rx (server w) (cookies w c) req = (st', s', r) \<Longrightarrow>
     reach rx \<lparr>server = st', cookies = (cookies w)(c := s')\<rparr>"
| copy_cookie: "reach rx w \<Longrightarrow> reach rx (w\<lparr>cookies := (cookies w)(c' := cookies w c)\<rparr>)"

section \<open>Invariants\<close>

text \<open>
  What every reachable world satisfies: every session logged in as \<open>e\<close>
  names an e-mail that has a code in \<open>USERS\<close>.
\<close>

definition world_inv :: "world \<Rightarrow> bool" where
  "world_inv w \<longleftrightarrow> (\<forall>c e. logged_in (cookies w c) = Some e \<longrightarrow> users (server w) e \<noteq> None)"

lemma handle_users_mono:
  "users st e \<noteq> None \<Longrightarrow> users (fst (handle rx st s req)) e \<noteq> None"
  by (cases req) (simp_all add: send_otp_handler_def send_otp_def Let_def prod.case_eq_if)

lemma handle_login_source:
  "logged_in (fst (snd (handle rx st s req))) = Some e \<Longrightarrow> logged_in s = Some e \<or> users st e \<noteq> None"
  by (cases req)
     (auto simp: verify_otp_handler_def send_otp_handler_def verify_otp_def
           split: prod.splits if_splits option.splits)

lemma handle_login_registered:
  assumes h: "handle rx st s req = (st', s', r)" and l: "logged_in s' = Some e"
    and inv: "\<forall>e. logged_in s = Some e \<longrightarrow> users st e \<noteq> None"
  shows "users st' e \<noteq> None"
proof -
  from h l have "logged_in (fst (snd (handle rx st s req))) = Some e" by simp
  then have "users st e \<noteq> None"
    using inv by (auto dest: handle_login_source)
  then have "users (fst (handle rx st s req)) e \<noteq> None" by (rule handle_users_mono)
  with h show ?thesis by simp
qed

lemma world_inv_init: "world_inv init_world"
  by (simp add: world_inv_def init_world_def init_state_def logged_in_def)

lemma world_inv_request:
  assumes inv: "world_inv w" and h: "handle rx (server w) (cookies w c) req = (st', s', r)"
  shows "world_inv \<lparr>server = st', cookies = (cookies w)(c := s')\<rparr>"
proof -
  have new: "users st' e \<noteq> None" if "logged_in s' = Some e" for e
    using handle_login_registered[OF h that] inv by (simp add: world_inv_def)
  have old: "users st' e \<noteq> None" if "logged_in (cookies w c') = Some e" for c' e
  proof -
    from inv that have "users (server w) e \<noteq> None" by (simp add: world_inv_def)
    then have "users (fst (handle rx (server w) (cookies w c) req)) e \<noteq> None"
      by (rule handle_users_mono)
    with h show ?thesis by simp
  qed
  from new old show ?thesis by (auto simp: world_inv_def)
qed

lemma world_inv_copy:
  "world_inv w \<Longrightarrow> world_inv (w\<lparr>cookies := (cookies w)(c' := cookies w c)\<rparr>)"
  by (simp add: world_inv_def)

lemma reach_world_inv: "reach rx w \<Longrightarrow> world_inv w"
proof (induction rule: reach.induct)
  case init
  show ?case by (rule world_inv_init)
next
  case (request w c req st' s' r)
  from request.IH request.hyps(2) show ?case by (rule world_inv_request)
next
  case (copy_cookie w c' c)
  from copy_cookie.IH show ?case by (rule world_inv_copy)
qed

lemma reach_run: "reach rx w \<Longrightarrow> reach rx (fst (run rx w rs))"
  by (erule run_invariant[where P = "reach rx"]) (rule reach.request)

section \<open>Properties of the deployed application\<close>

text \<open>
  C30. In every reachable world, whatever the clients did with their
  cookies, a session logged in as \<open>e\<close> names an e-mail for which a code
  was issued: no session is logged in as an e-mail the server never saw.
\<close>

theorem reach_session_registered:
  "reach rx w \<Longrightarrow> logged_in (cookies w c) = Some e \<Longrightarrow> users (server w) e \<noteq> None"
  by (auto dest: reach_world_inv simp: world_inv_def)

theorem reach_session_registered_witness:
  "users (server (fst (run re_compile init_world
     [(0, SendOtp ''ada@x.it'' (nth [0, 4, 2, 9, 1, 7])), (0, VerifyOtp ''ada@x.it'' ''042917'')])))
     ''ada@x.it'' \<noteq> None"
proof -
  let ?w = "fst (run re_compile init_world
     [(0, SendOtp ''ada@x.it'' (nth [0, 4, 2, 9, 1, 7])), (0, VerifyOtp ''ada@x.it'' ''042917'')])"
  have r: "reach re_compile ?w" by (rule reach_run[OF reach.init])
  have l: "logged_in (cookies ?w 0) = Some ''ada@x.it''" by code_simp
  show ?thesis by (rule reach_session_registered[OF r l])
qed

text \<open>
  C31. Logging out does not end a copied session: in every reachable world
  where a client \<open>c'\<close> holds a copy of the cookie of a client \<open>c\<close> logged
  in as \<open>e\<close>, after \<open>c\<close> logs out \<open>c\<close> is logged out, the world is still
  reachable, the server state is unchanged (there is nothing to revoke: the
  session lives in the cookie), and \<open>c'\<close> is still greeted as \<open>e\<close> on
  \<open>/app\<close>.
\<close>

theorem logout_keeps_copied_session:
  assumes "reach rx w" and "c' \<noteq> c" and "cookies w c' = cookies w c"
    and "logged_in (cookies w c) = Some e"
  shows "reach rx (fst (run rx w [(c, Logout)])) \<and>
         logged_in (cookies (fst (run rx w [(c, Logout)])) c) = None \<and>
         server (fst (run rx w [(c, Logout)])) = server w \<and>
         snd (snd (handle rx (server (fst (run rx w [(c, Logout)])))
                    (cookies (fst (run rx w [(c, Logout)])) c') AppPage)) =
           Welcome e (shown_count (usage (server w)) e) DAILY_LIMIT"
  using reach_run[OF assms(1), of "[(c, Logout)]"] assms(2-4) by (simp add: app_page_def)

theorem logout_keeps_copied_session_witness:
  "reach re_compile (fst (run re_compile ((fst (run re_compile init_world
       [(0, SendOtp ''ada@x.it'' (nth [0, 4, 2, 9, 1, 7])), (0, VerifyOtp ''ada@x.it'' ''042917'')]))
       \<lparr>cookies := (cookies (fst (run re_compile init_world
         [(0, SendOtp ''ada@x.it'' (nth [0, 4, 2, 9, 1, 7])), (0, VerifyOtp ''ada@x.it'' ''042917'')])))
         (1 := cookies (fst (run re_compile init_world
           [(0, SendOtp ''ada@x.it'' (nth [0, 4, 2, 9, 1, 7])), (0, VerifyOtp ''ada@x.it'' ''042917'')])) 0)\<rparr>)
     [(0, Logout)])) \<and>
   logged_in (cookies (fst (run re_compile ((fst (run re_compile init_world
       [(0, SendOtp ''ada@x.it'' (nth [0, 4, 2, 9, 1, 7])), (0, VerifyOtp ''ada@x.it'' ''042917'')]))
       \<lparr>cookies := (cookies (fst (run re_compile init_world
         [(0, SendOtp ''ada@x.it'' (nth [0, 4, 2, 9, 1, 7])), (0, VerifyOtp ''ada@x.it'' ''042917'')])))
         (1 := cookies (fst (run re_compile init_world
           [(0, SendOtp ''ada@x.it'' (nth [0, 4, 2, 9, 1, 7])), (0, VerifyOtp ''ada@x.it'' ''042917'')])) 0)\<rparr>)
     [(0, Logout)])) 0) = None \<and>
   server (fst (run re_compile ((fst (run re_compile init_world
       [(0, SendOtp ''ada@x.it'' (nth [0, 4, 2, 9, 1, 7])), (0, VerifyOtp ''ada@x.it'' ''042917'')]))
       \<lparr>cookies := (cookies (fst (run re_compile init_world
         [(0, SendOtp ''ada@x.it'' (nth [0, 4, 2, 9, 1, 7])), (0, VerifyOtp ''ada@x.it'' ''042917'')])))
         (1 := cookies (fst (run re_compile init_world
           [(0, SendOtp ''ada@x.it'' (nth [0, 4, 2, 9, 1, 7])), (0, VerifyOtp ''ada@x.it'' ''042917'')])) 0)\<rparr>)
     [(0, Logout)])) =
   server ((fst (run re_compile init_world
       [(0, SendOtp ''ada@x.it'' (nth [0, 4, 2, 9, 1, 7])), (0, VerifyOtp ''ada@x.it'' ''042917'')]))
       \<lparr>cookies := (cookies (fst (run re_compile init_world
         [(0, SendOtp ''ada@x.it'' (nth [0, 4, 2, 9, 1, 7])), (0, VerifyOtp ''ada@x.it'' ''042917'')])))
         (1 := cookies (fst (run re_compile init_world
           [(0, SendOtp ''ada@x.it'' (nth [0, 4, 2, 9, 1, 7])), (0, VerifyOtp ''ada@x.it'' ''042917'')])) 0)\<rparr>) \<and>
   snd (snd (handle re_compile (server (fst (run re_compile ((fst (run re_compile init_world
       [(0, SendOtp ''ada@x.it'' (nth [0, 4, 2, 9, 1, 7])), (0, VerifyOtp ''ada@x.it'' ''042917'')]))
       \<lparr>cookies := (cookies (fst (run re_compile init_world
         [(0, SendOtp ''ada@x.it'' (nth [0, 4, 2, 9, 1, 7])), (0, VerifyOtp ''ada@x.it'' ''042917'')])))
         (1 := cookies (fst (run re_compile init_world
           [(0, SendOtp ''ada@x.it'' (nth [0, 4, 2, 9, 1, 7])), (0, VerifyOtp ''ada@x.it'' ''042917'')])) 0)\<rparr>)
     [(0, Logout)])))
     (cookies (fst (run re_compile ((fst (run re_compile init_world
       [(0, SendOtp ''ada@x.it'' (nth [0, 4, 2, 9, 1, 7])), (0, VerifyOtp ''ada@x.it'' ''042917'')]))
       \<lparr>cookies := (cookies (fst (run re_compile init_world
         [(0, SendOtp ''ada@x.it'' (nth [0, 4, 2, 9, 1, 7])), (0, VerifyOtp ''ada@x.it'' ''042917'')])))
         (1 := cookies (fst (run re_compile init_world
           [(0, SendOtp ''ada@x.it'' (nth [0, 4, 2, 9, 1, 7])), (0, VerifyOtp ''ada@x.it'' ''042917'')])) 0)\<rparr>)
     [(0, Logout)])) 1) AppPage)) =
   Welcome ''ada@x.it'' (shown_count (usage (server ((fst (run re_compile init_world
       [(0, SendOtp ''ada@x.it'' (nth [0, 4, 2, 9, 1, 7])), (0, VerifyOtp ''ada@x.it'' ''042917'')]))
       \<lparr>cookies := (cookies (fst (run re_compile init_world
         [(0, SendOtp ''ada@x.it'' (nth [0, 4, 2, 9, 1, 7])), (0, VerifyOtp ''ada@x.it'' ''042917'')])))
         (1 := cookies (fst (run re_compile init_world
           [(0, SendOtp ''ada@x.it'' (nth [0, 4, 2, 9, 1, 7])), (0, VerifyOtp ''ada@x.it'' ''042917'')])) 0)\<rparr>)))
     ''ada@x.it'') DAILY_LIMIT"
proof -
  let ?w1 = "fst (run re_compile init_world
     [(0, SendOtp ''ada@x.it'' (nth [0, 4, 2, 9, 1, 7])), (0, VerifyOtp ''ada@x.it'' ''042917'')])"
  let ?w2 = "?w1\<lparr>cookies := (cookies ?w1)(1 := cookies ?w1 0)\<rparr>"
  have "reach re_compile ?w1" by (rule reach_run[OF reach.init])
  then have r: "reach re_compile ?w2" by (rule reach.copy_cookie)
  have c: "cookies ?w2 1 = cookies ?w2 0" by simp
  have l: "logged_in (cookies ?w2 0) = Some ''ada@x.it''" by code_simp
  show ?thesis by (rule logout_keeps_copied_session[OF r _ c l]) simp
qed

text \<open>
  C32. Logging in is always possible: from every reachable world, whatever
  the other clients did, any client can log in as any non-empty e-mail with
  two requests (an empty form field is refused by FastAPI before the handler
  runs), after which the landing page greets it with that e-mail's count.
\<close>

theorem login_progress:
  "reach rx w \<Longrightarrow> e \<noteq> [] \<Longrightarrow> \<exists>rs. reach rx (fst (run rx w rs)) \<and> logged_in (cookies (fst (run rx w rs)) c) = Some e \<and>
     snd (snd (handle rx (server (fst (run rx w rs))) (cookies (fst (run rx w rs)) c) AppPage)) =
       Welcome e (shown_count (usage (server w)) e) DAILY_LIMIT"
  apply (rule exI[of _ "[(c, SendOtp e (\<lambda>_. 0)), (c, VerifyOtp e (gen_otp (\<lambda>_. 0)))]"])
  apply (intro conjI)
    apply (erule reach_run)
   apply (simp_all add: send_otp_handler_def send_otp_def verify_otp_handler_def verify_otp_def
      gen_otp_def string_digits_def app_page_def Let_def)
  done

theorem login_progress_witness:
  "\<exists>rs. reach re_compile (fst (run re_compile init_world rs)) \<and> logged_in (cookies (fst (run re_compile init_world rs)) 0) = Some ''ada@x.it'' \<and>
     snd (snd (handle re_compile (server (fst (run re_compile init_world rs))) (cookies (fst (run re_compile init_world rs)) 0) AppPage)) =
       Welcome ''ada@x.it'' (shown_count (usage (server init_world)) ''ada@x.it'') DAILY_LIMIT"
  by (rule login_progress[OF reach.init]) simp

end
