(* ===== verification/Pages.thy ===== *)
theory Pages
  imports App
begin

text \<open>
  The pages of \<open>src/main.py\<close> as the strings the handlers return.  The
  templates are Python triple-quoted f-strings (lines 35 to 43, 56 to 66,
  102 to 115, 163 to 167 and 183 to 187): a line break before every line of
  the template, then a line break and the indentation of the closing quotes.
  The one-line answers (lines 77, 135, 158, 179, 190, 193) are single
  f-strings.  Values are inserted as \<open>str()\<close> makes them, without any
  escaping.  The table of results is what pandas' \<open>DataFrame.to_html\<close>
  prints; it is a parameter of the rendering (the library's interface), so
  every lemma holds for any table printer.
\<close>

section \<open>Text building blocks\<close>

definition nl :: string where
  "nl = [CHR 0x0A]"

text \<open>A triple-quoted string: its lines, and the indentation before the closing quotes.\<close>

definition triple_quoted :: "string \<Rightarrow> string list \<Rightarrow> string" where
  "triple_quoted closing ls = concat (map (\<lambda>l. nl @ l) ls) @ nl @ closing"

section \<open>The templates\<close>

text \<open>Lines 35 to 43.\<close>

definition login_html :: string where
  \<open>login_html = triple_quoted ''    ''
     [''    <html><body style="font-family: Arial; margin: 40px;">'',
      ''        <h2>Accedi</h2>'',
      ''        <form action="/send-otp" method="post">'',
      ''            <p><input type="email" name="email" placeholder="Email" required></p>'',
      ''            <button type="submit">Invia codice</button>'',
      ''        </form>'',
      ''    </body></html>'']\<close>

text \<open>Lines 56 to 66.\<close>

definition otp_html :: "email \<Rightarrow> string \<Rightarrow> string" where
  \<open>otp_html em code = triple_quoted ''    ''
     [''    <html><body style="font-family: Arial; margin: 40px;">'',
      ''        <h3>Codice inviato a '' @ em @ ''</h3>'',
      ''        <p><b>Codice OTP (solo per test): '' @ code @ ''</b></p>'',
      ''        <form action="/verify-otp" method="post">'',
      ''            <input type="hidden" name="email" value="'' @ em @ ''">'',
      ''            <p><input type="text" name="otp" placeholder="Inserisci codice" required></p>'',
      ''            <button type="submit">Accedi</button>'',
      ''        </form>'',
      ''    </body></html>'']\<close>

text \<open>Lines 102 to 115.\<close>

definition welcome_html :: "email \<Rightarrow> nat \<Rightarrow> nat \<Rightarrow> string" where
  \<open>welcome_html em count limit = triple_quoted ''    ''
     [''    <html><body style="font-family: Arial; margin: 40px;">'',
      ''        <h2>Benvenuto, '' @ em @ ''</h2>'',
      ''        <p>Ricerche oggi: <b>'' @ str_nat count @ ''/'' @ str_nat limit @ ''</b></p>'',
      ''        <a href="/logout">Logout</a>'',
      ''        <hr>'',
      ''        <h3>Carica un file e cerca una voce</h3>'',
      ''        <form action="/search" method="post" enctype="multipart/form-data">'',
      ''            <p><input type="file" name="file" required></p>'',
      ''            <p><input type="text" name="query" placeholder="Voce da cercare" required></p>'',
      ''            <button type="submit">Cerca</button>'',
      ''        </form>'',
      ''    </body></html>'']\<close>

text \<open>
  Lines 157 to 193: the answers of the search proper, given pandas' table
  printer (columns and rows to HTML).
\<close>

definition search_html :: "(string list \<Rightarrow> string list list \<Rightarrow> string) \<Rightarrow> string \<Rightarrow> search_outcome \<Rightarrow> string" where
  \<open>search_html to_html query outcome =
     (case outcome of
        NoResults \<Rightarrow> ''<h3>Nessun risultato trovato per: <b>'' @ query @ ''</b></h3>''
      | Found cols rs \<Rightarrow> triple_quoted ''            ''
          [''            <h3>Risultati per: <b>'' @ query @ ''</b></h3>'',
           ''            '' @ to_html cols rs,
           ''            <br><a href="/app">Torna indietro</a>'']
      | Unsupported \<Rightarrow> ''<h3>Formato non supportato. Usa CSV o XLSX.</h3>''
      | Failed e \<Rightarrow> ''<h3>Errore: '' @ e @ ''</h3>'')\<close>

section \<open>Responses on the wire\<close>

text \<open>
  What FastAPI sends: an \<open>HTMLResponse\<close> (status 200) with the page, or a
  \<open>RedirectResponse\<close> with its status and location.
\<close>

datatype http = HtmlPage string | RedirectTo nat string

fun render :: "(string list \<Rightarrow> string list list \<Rightarrow> string) \<Rightarrow> response \<Rightarrow> http" where
  "render to_html (Redirect status loc) = RedirectTo status loc"
| "render to_html LoginForm = HtmlPage login_html"
| "render to_html (OtpPage em code) = HtmlPage (otp_html em code)"
| "render to_html WrongCode = HtmlPage ''<h3>Codice errato</h3>''"
| "render to_html (Welcome em count limit) = HtmlPage (welcome_html em count limit)"
| "render to_html LimitPage = HtmlPage ''<h3>Hai raggiunto il limite giornaliero di ricerche.</h3>''"
| "render to_html (SearchPage query outcome) = HtmlPage (search_html to_html query outcome)"

section \<open>Lemmas on the pages\<close>

lemma sublist_concat_member:
  "x \<in> set xs \<Longrightarrow> sublist x (concat xs)"
  by (induction xs) (auto intro: sublist_order.order_trans[OF _ sublist_append_rightI]
                                 sublist_order.order_trans[OF _ sublist_append_leftI])

lemma sublist_triple_quoted:
  "l \<in> set ls \<Longrightarrow> sublist l (triple_quoted closing ls)"
proof -
  assume "l \<in> set ls"
  then have "nl @ l \<in> set (map (\<lambda>l. nl @ l) ls)" by simp
  then have "sublist (nl @ l) (concat (map (\<lambda>l. nl @ l) ls))" by (rule sublist_concat_member)
  then have "sublist l (concat (map (\<lambda>l. nl @ l) ls))"
    by (rule sublist_order.order_trans[OF sublist_append_leftI])
  then show ?thesis
    unfolding triple_quoted_def by (rule sublist_order.order_trans[OF _ sublist_append_rightI])
qed

lemma sublist_line:
  "l \<in> set ls \<Longrightarrow> l = a @ x @ b \<Longrightarrow> sublist x (triple_quoted c ls)"
  by (metis sublist_appendI sublist_order.order_trans sublist_triple_quoted)

lemma search_html_query:
  "r = NoResults \<or> (\<exists>cs rs. r = Found cs rs) \<Longrightarrow> sublist q (search_html th q r)"
proof (elim disjE exE)
  assume "r = NoResults"
  then show ?thesis unfolding search_html_def by (simp only: search_outcome.case) (rule sublist_appendI)
next
  fix cs rs
  assume "r = Found cs rs"
  then show ?thesis unfolding search_html_def
    apply (simp only: search_outcome.case)
    by (rule sublist_order.order_trans[OF sublist_appendI sublist_triple_quoted[OF list.set_intros(1)]])
qed

lemma search_csv_shows:
  "rows t \<noteq> [] \<Longrightarrow> \<not> isl (rx True q) \<Longrightarrow>
   search_csv rx q t = NoResults \<or> (\<exists>cs rs. search_csv rx q t = Found cs rs)"
  by (cases "rx True q") (simp_all add: search_csv_spec search_spec_def)

section \<open>Properties of the pages\<close>

text \<open>
  C33. The search query reaches the result page verbatim: for a logged-in
  user within the quota who uploads a readable CSV file, the page
  answered contains the query text as typed, markup included (the
  query is not HTML-escaped).
\<close>

theorem search_page_echoes_query:
  assumes "logged_in s = Some e" and "check_quota (usage st) e d \<noteq> Inl LimitReached"
    and "endswith (py_lower (filename up)) ''.csv''" and "rows t \<noteq> []"
    and "csv_read up = Inr t" and "\<not> isl (rx True q)"
  shows "\<exists>p. render th (snd (snd (handle rx st s (SearchFile d up q)))) = HtmlPage p \<and> sublist q p"
proof (cases "check_quota (usage st) e d")
  case (Inl a)
  then show ?thesis using assms(2) by (cases a) simp
next
  case (Inr db)
  have "search_csv rx q t = NoResults \<or> (\<exists>cs rs. search_csv rx q t = Found cs rs)"
    using assms(4,6) by (rule search_csv_shows)
  with Inr assms(1,3,5) show ?thesis
    by (auto simp: search_handler_def search_upload_def search_html_query split: prod.splits)
qed

theorem search_page_echoes_query_witness:
  "\<exists>p. render (\<lambda>cs rs. py_join '' '' cs) (snd (snd (handle re_compile init_state (Map.empty(''email'' \<mapsto> ''a''))
     (SearchFile 3 \<lparr>filename = ''f.csv'', csv_read = Inr \<lparr>columns = [''c''], rows = [[Some ''x'']]\<rparr>, excel_read = Inl ''y''\<rparr>
        ''<script>alert(1)</script>'')))) = HtmlPage p \<and> sublist ''<script>alert(1)</script>'' p"
proof (rule search_page_echoes_query[of _ "''a''"])
  show "\<not> isl (re_compile True ''<script>alert(1)</script>'')" by code_simp
qed (simp_all add: logged_in_def check_quota_def DAILY_LIMIT_def init_state_def model_simps char_of_eq_iff)

text \<open>
  C34. The page answered to \<open>/send-otp\<close> shows the issued code, and the
  code it shows is the one that logs in for that e-mail; the e-mail itself
  is put into the hidden form field unescaped.
\<close>

theorem otp_page_discloses_code:
  \<open>\<exists>p. render th (snd (snd (handle rx st s (SendOtp e ds)))) = HtmlPage p \<and>
      sublist (''(solo per test): '' @ gen_otp ds @ ''</b>'') p \<and>
      sublist (''value="'' @ e @ ''">'') p \<and>
      verify_otp (users (fst (handle rx st s (SendOtp e ds)))) e (gen_otp ds)\<close>
proof -
  have p: "render th (snd (snd (handle rx st s (SendOtp e ds)))) = HtmlPage (otp_html e (gen_otp ds))"
    and v: "verify_otp (users (fst (handle rx st s (SendOtp e ds)))) e (gen_otp ds)"
    by (simp_all add: send_otp_handler_def send_otp_def verify_otp_def Let_def)
  have "''        <p><b>Codice OTP (solo per test): '' @ gen_otp ds @ ''</b></p>'' =
        ''        <p><b>Codice OTP '' @ (''(solo per test): '' @ gen_otp ds @ ''</b>'') @ ''</p>''"
    by simp
  then have "sublist (''(solo per test): '' @ gen_otp ds @ ''</b>'') (otp_html e (gen_otp ds))"
    unfolding otp_html_def
    by (rule sublist_line[rotated]) (intro list.set_intros)+
  moreover have \<open>''            <input type="hidden" name="email" value="'' @ e @ ''">'' =
        ''            <input type="hidden" name="email" '' @ (''value="'' @ e @ ''">'') @ []\<close>
    by simp
  then have \<open>sublist (''value="'' @ e @ ''">'') (otp_html e (gen_otp ds))\<close>
    unfolding otp_html_def
    by (rule sublist_line[rotated]) (intro list.set_intros)+
  ultimately show ?thesis using p v by blast
qed

text \<open>
  C35. No open redirect: whatever the state, the session and the request,
  every redirect the application answers goes to \<open>/app\<close> or \<open>/login\<close>,
  with status 307 (\<open>RedirectResponse\<close>'s default) or 302 (after a
  successful verification).
\<close>

theorem redirects_internal:
  "render th (snd (snd (handle rx st s req))) = RedirectTo n loc \<Longrightarrow>
   (n, loc) \<in> {(307, ''/app''), (307, ''/login''), (302, ''/app'')}"
  by (cases req)
     (auto simp: root_def send_otp_handler_def verify_otp_handler_def app_page_def search_handler_def
        split: if_splits option.splits sum.splits prod.splits quota_error.splits)

theorem redirects_internal_witness:
  "(307, ''/login'') \<in> {(307 :: nat, ''/app''), (307, ''/login''), (302, ''/app'')}"
  by (rule redirects_internal[of "\<lambda>_ _. ''''" re_compile init_state Map.empty AppPage]) (simp add: app_page_def logged_in_def)


text \<open>
  C36. A query that is not a valid pattern is answered with the error page:
  for a logged-in user within the quota who uploads a readable CSV file with
  rows, a query the engine refuses (CPython's \<open>re.error\<close>) is caught by
  the handler's \<open>except\<close> and its message shown in the page, after the
  search was charged.
\<close>

theorem search_error_page:
  assumes "logged_in s = Some e" and "current_count (usage st) e d < DAILY_LIMIT"
    and "endswith (py_lower (filename up)) ''.csv''" and "rows t \<noteq> []"
    and "csv_read up = Inr t" and "rx True q = Inl msg"
  shows "render th (snd (snd (handle rx st s (SearchFile d up q)))) = HtmlPage (''<h3>Errore: '' @ msg @ ''</h3>'')"
  using assms by (simp add: search_handler_logged_in search_upload_def search_csv_spec search_spec_def search_html_def)

theorem search_error_page_witness:
  "render (\<lambda>cs rs. []) (snd (snd (handle re_compile init_state (Map.empty(''email'' \<mapsto> ''a''))
     (SearchFile 3 \<lparr>filename = ''f.csv'', csv_read = Inr \<lparr>columns = [''c''], rows = [[Some ''x'']]\<rparr>, excel_read = Inl ''y''\<rparr>
        ''(''))))
   = HtmlPage (''<h3>Errore: '' @ ''missing ), unterminated subpattern at position 0'' @ ''</h3>'')"
proof (rule search_error_page[of _ "''a''"])
  show "re_compile True ''('' = Inl ''missing ), unterminated subpattern at position 0''"
    by (simp add: re_compile_def at_pos_def str_nat.simps char_of_eq_iff)
qed (simp_all add: logged_in_def current_count_def DAILY_LIMIT_def init_state_def model_simps char_of_eq_iff)

end
