(* ===== verification/Traces.thy ===== *)
theory Traces
  imports App
begin

text \<open>
  Observing the application: what one server process answers to a sequence
  of requests, each presented with the session cookie the client sent
  (\<open>serve\<close>), and the trace of a run of several clients (\<open>trace\<close>), which
  is such a sequence.  The searches of one user in a trace
  (\<open>user_searches\<close>) are the usage tracker's run on their days, whoever
  presented the session: the lemma \<open>serve_user_searches\<close>, on which the
  per-user bounds of the root theory and of \<open>Workers\<close> rest.
\<close>

section \<open>Traces\<close>

text \<open>
  One server process answering requests that carry their session: for each
  request, the e-mail the session was logged in as when the handler read
  it, the request and the response.  The session the handler hands back
  goes to the client, not to the server, so the next request brings its own.
\<close>

fun serve :: "regex \<Rightarrow> app_state \<Rightarrow> (session \<times> request) list \<Rightarrow> (email option \<times> request \<times> response) list" where
  "serve rx st [] = []"
| "serve rx st ((s, req) # srs) =
     (case handle rx st s req of (st', s', r) \<Rightarrow> (logged_in s, req, r) # serve rx st' srs)"

text \<open>The trace of a run of several clients, each holding its cookie.\<close>

fun trace :: "regex \<Rightarrow> world \<Rightarrow> (client \<times> request) list \<Rightarrow> (email option \<times> request \<times> response) list" where
  "trace rx w [] = []"
| "trace rx w ((c, req) # rs) =
     (case handle rx (server w) (cookies w c) req of (st', s', r) \<Rightarrow>
        (logged_in (cookies w c), req, r) # trace rx \<lparr>server = st', cookies = (cookies w)(c := s')\<rparr> rs)"

text \<open>The sessions the clients of a run present, one per request.\<close>

fun presented :: "regex \<Rightarrow> world \<Rightarrow> (client \<times> request) list \<Rightarrow> (session \<times> request) list" where
  "presented rx w [] = []"
| "presented rx w ((c, req) # rs) =
     (case handle rx (server w) (cookies w c) req of (st', s', r) \<Rightarrow>
        (cookies w c, req) # presented rx \<lparr>server = st', cookies = (cookies w)(c := s')\<rparr> rs)"

text \<open>The searches of user \<open>e\<close> in a trace, with whether each got a search page.\<close>

fun user_searches :: "email \<Rightarrow> (email option \<times> request \<times> response) list \<Rightarrow> (day \<times> bool) list" where
  "user_searches e [] = []"
| "user_searches e ((u, SearchFile d up q, r) # tr) =
     (if u = Some e then (d, r \<noteq> LimitPage) # user_searches e tr else user_searches e tr)"
| "user_searches e (_ # tr) = user_searches e tr"

section \<open>Lemmas on traces\<close>

lemma trace_responses: "map (\<lambda>(_, _, r). r) (trace rx w rs) = snd (run rx w rs)"
  by (induction rx w rs rule: trace.induct) (simp_all split: prod.split)

lemma trace_serve: "trace rx w rs = serve rx (server w) (presented rx w rs)"
  by (induction rx w rs rule: trace.induct) (simp_all split: prod.split)

lemma handle_usage_other:
  "(\<And>d up q. req = SearchFile d up q \<Longrightarrow> logged_in s \<noteq> Some e) \<Longrightarrow>
   usage (fst (handle rx st s req)) e = usage st e"
  by (cases req) (auto simp: send_otp_handler_def search_handler_def check_quota_current
      split: prod.split option.split)

text \<open>
  One search of \<open>e\<close> at a server: refused with the state unchanged, or
  admitted with the usage map the quota check returns.
\<close>

lemma handle_user_search:
  assumes h: "handle rx st s (SearchFile d up q) = (st', s', r)" and l: "logged_in s = Some e"
  shows "(check_quota (usage st) e d = Inl LimitReached \<and> st' = st \<and> r = LimitPage) \<or>
         (check_quota (usage st) e d = Inr (usage st') \<and> r \<noteq> LimitPage)"
  using h l by (auto simp: search_handler_def split: sum.splits quota_error.splits)

lemma serve_user_searches:
  "user_searches e (serve rx st srs) =
     fst (quota_run (usage st) e (map fst (user_searches e (serve rx st srs))))"
proof (induction srs arbitrary: st)
  case Nil
  then show ?case by simp
next
  case (Cons sr srs)
  obtain s req where sr: "sr = (s, req)" by (cases sr)
  obtain st' s' r where h: "handle rx st s req = (st', s', r)"
    by (cases "handle rx st s req")
  have IH: "user_searches e (serve rx st' srs) =
     fst (quota_run (usage st') e (map fst (user_searches e (serve rx st' srs))))"
    by (rule Cons.IH)
  show ?case
  proof (cases "\<exists>d up q. req = SearchFile d up q \<and> logged_in s = Some e")
    case True
    then obtain d up q where req: "req = SearchFile d up q" and l: "logged_in s = Some e"
      by blast
    from handle_user_search[OF h[unfolded req] l] IH sr h req l show ?thesis
      by auto
  next
    case False
    then have "usage st' e = usage st e"
      using handle_usage_other[of req s e rx st] h by auto
    moreover have "user_searches e (serve rx st (sr # srs)) = user_searches e (serve rx st' srs)"
      using False sr h by (cases req) auto
    ultimately show ?thesis
      using IH quota_run_local[of "usage st'" e "usage st"] by simp
  qed
qed

lemma trace_user_searches:
  "user_searches e (trace rx w rs) =
     fst (quota_run (usage (server w)) e (map fst (user_searches e (trace rx w rs))))"
  unfolding trace_serve by (rule serve_user_searches)

end
