(* ===== verification/Workers.thy ===== *)
theory Workers
  imports Traces
begin

text \<open>
  The application served by several processes (\<open>uvicorn --workers n\<close>, or
  replicas behind a balancer).  \<open>USERS\<close> and \<open>USAGE\<close> are module globals
  (lines 14 to 16), so every process has its own copy; the session is the
  cookie Starlette signs with the one fixed key of line 12, so every process
  accepts every client's cookie.  A request of a client goes to any process.
  The quota abstraction of \<open>Traces\<close> holds per process, and no further:
  the daily limit is a limit per user and process.
\<close>

section \<open>Processes sharing the cookies\<close>

type_synonym worker = nat

record cluster =
  procs :: "worker \<Rightarrow> app_state"
  jar :: "client \<Rightarrow> session"

definition init_cluster :: cluster where
  "init_cluster = \<lparr>procs = (\<lambda>_. init_state), jar = (\<lambda>_. Map.empty)\<rparr>"

text \<open>
  A run: each request names its client and the process that serves it; the
  trace records the process, the e-mail of the session it read, the request
  and the response.
\<close>

fun ctrace :: "regex \<Rightarrow> cluster \<Rightarrow> (client \<times> worker \<times> request) list \<Rightarrow>
    (worker \<times> email option \<times> request \<times> response) list" where
  "ctrace rx cl [] = []"
| "ctrace rx cl ((c, k, req) # rs) =
     (case handle rx (procs cl k) (jar cl c) req of (st', s', r) \<Rightarrow>
        (k, logged_in (jar cl c), req, r) #
          ctrace rx \<lparr>procs = (procs cl)(k := st'), jar = (jar cl)(c := s')\<rparr> rs)"

text \<open>The sessions presented to process \<open>k\<close> in a run, with their requests.\<close>

fun cpresented :: "regex \<Rightarrow> cluster \<Rightarrow> (client \<times> worker \<times> request) list \<Rightarrow> worker \<Rightarrow> (session \<times> request) list" where
  "cpresented rx cl [] k = []"
| "cpresented rx cl ((c, j, req) # rs) k =
     (case handle rx (procs cl j) (jar cl c) req of (st', s', r) \<Rightarrow>
        (if j = k then [(jar cl c, req)] else []) @
          cpresented rx \<lparr>procs = (procs cl)(j := st'), jar = (jar cl)(c := s')\<rparr> rs k)"

text \<open>The part of a trace that process \<open>k\<close> served.\<close>

definition at_worker :: "worker \<Rightarrow> (worker \<times> 'a) list \<Rightarrow> 'a list" where
  "at_worker k tr = map snd (filter (\<lambda>x. fst x = k) tr)"

section \<open>Lemmas on the processes\<close>

lemma at_worker_Nil [simp]: "at_worker k [] = []"
  by (simp add: at_worker_def)

lemma at_worker_Cons [simp]:
  "at_worker k ((j, x) # tr) = (if j = k then x # at_worker k tr else at_worker k tr)"
  by (simp add: at_worker_def)

text \<open>What one process answers in a run is that process serving the sessions presented to it.\<close>

lemma ctrace_at_worker:
  "at_worker k (ctrace rx cl rs) = serve rx (procs cl k) (cpresented rx cl rs k)"
proof (induction rs arbitrary: cl)
  case Nil
  then show ?case by simp
next
  case (Cons x rs)
  obtain c j req where x: "x = (c, j, req)" by (cases x)
  obtain st' s' r where h: "handle rx (procs cl j) (jar cl c) req = (st', s', r)"
    by (cases "handle rx (procs cl j) (jar cl c) req")
  show ?case
    using Cons.IH[of "\<lparr>procs = (procs cl)(j := st'), jar = (jar cl)(c := s')\<rparr>"] x h
    by (cases "j = k") simp_all
qed

section \<open>Properties of a deployment with several processes\<close>

text \<open>
  C40. With several server processes the daily limit holds per user and
  process: in any run from the start, however the requests of any number of
  clients are spread over the processes, at most \<open>DAILY_LIMIT\<close> of one
  user's searches served by one process get a search page on any day,
  provided the days of that user's searches there never go back.  The bound
  is not global: the witness gets twenty search pages on one day out of two
  processes, with one login.
\<close>

theorem worker_daily_bound:
  "sorted (map fst (user_searches e (at_worker k (ctrace rx init_cluster rs)))) \<Longrightarrow>
   admitted_on x (user_searches e (at_worker k (ctrace rx init_cluster rs))) \<le> DAILY_LIMIT"
  using quota_run_bound[of "usage init_state" "map fst (user_searches e (at_worker k (ctrace rx init_cluster rs)))" e x]
    serve_user_searches[of e rx init_state "cpresented rx init_cluster rs k"]
  by (simp add: ctrace_at_worker init_cluster_def init_state_def current_count_def)

theorem worker_daily_bound_witness:
  "admitted_on 5 (user_searches ''ada@x.it'' (at_worker 1 (ctrace re_compile init_cluster
     ([(0, 0, SendOtp ''ada@x.it'' (nth [0, 4, 2, 9, 1, 7])), (0, 0, VerifyOtp ''ada@x.it'' ''042917'')] @
      concat (replicate 11 [(0, 0, SearchFile 5 \<lparr>filename = ''a.txt'', csv_read = Inl ''x'', excel_read = Inl ''y''\<rparr> ''q''),
                            (0, 1, SearchFile 5 \<lparr>filename = ''a.txt'', csv_read = Inl ''x'', excel_read = Inl ''y''\<rparr> ''q'')]))))) \<le> DAILY_LIMIT \<and>
   admitted_on 5 (user_searches ''ada@x.it'' (map snd (ctrace re_compile init_cluster
     ([(0, 0, SendOtp ''ada@x.it'' (nth [0, 4, 2, 9, 1, 7])), (0, 0, VerifyOtp ''ada@x.it'' ''042917'')] @
      concat (replicate 11 [(0, 0, SearchFile 5 \<lparr>filename = ''a.txt'', csv_read = Inl ''x'', excel_read = Inl ''y''\<rparr> ''q''),
                            (0, 1, SearchFile 5 \<lparr>filename = ''a.txt'', csv_read = Inl ''x'', excel_read = Inl ''y''\<rparr> ''q'')]))))) = 20"
proof
  show "admitted_on 5 (user_searches ''ada@x.it'' (at_worker 1 (ctrace re_compile init_cluster
     ([(0, 0, SendOtp ''ada@x.it'' (nth [0, 4, 2, 9, 1, 7])), (0, 0, VerifyOtp ''ada@x.it'' ''042917'')] @
      concat (replicate 11 [(0, 0, SearchFile 5 \<lparr>filename = ''a.txt'', csv_read = Inl ''x'', excel_read = Inl ''y''\<rparr> ''q''),
                            (0, 1, SearchFile 5 \<lparr>filename = ''a.txt'', csv_read = Inl ''x'', excel_read = Inl ''y''\<rparr> ''q'')]))))) \<le> DAILY_LIMIT"
    by (rule worker_daily_bound) code_simp
  show "admitted_on 5 (user_searches ''ada@x.it'' (map snd (ctrace re_compile init_cluster
     ([(0, 0, SendOtp ''ada@x.it'' (nth [0, 4, 2, 9, 1, 7])), (0, 0, VerifyOtp ''ada@x.it'' ''042917'')] @
      concat (replicate 11 [(0, 0, SearchFile 5 \<lparr>filename = ''a.txt'', csv_read = Inl ''x'', excel_read = Inl ''y''\<rparr> ''q''),
                            (0, 1, SearchFile 5 \<lparr>filename = ''a.txt'', csv_read = Inl ''x'', excel_read = Inl ''y''\<rparr> ''q'')]))))) = 20"
    by code_simp
qed

end
