(* ===== verification/Spec2Isabelle.thy ===== *)
theory Spec2Isabelle
  imports Clients Pages Workers
begin

text \<open>
  \<^bold>\<open>A verification model of cercavocicomputo (\<open>src/main.py\<close>).\<close>

  The program is one FastAPI module: a login by one-time code, a per-user
  daily quota of ten searches, and a search of an uploaded CSV or XLSX table.
  Its parts and how they interact:
  \<^item> the OTP registry \<open>USERS\<close> (e-mail to \<open>{"otp": code}\<close>), written by
    \<open>send_otp\<close> and read by \<open>verify_otp\<close>;
  \<^item> the session, Starlette's cookie-held dictionary, whose \<open>"email"\<close> key
    \<open>verify_otp\<close> sets, \<open>logout\<close> clears and \<open>root\<close>, \<open>app_page\<close> and
    \<open>search\<close> read;
  \<^item> the usage tracker \<open>USAGE\<close> (e-mail to \<open>{"date", "count"}\<close>) with
    \<open>DAILY_LIMIT = 10\<close>, checked and incremented by \<open>search\<close> before it
    looks at the file, and shown by \<open>app_page\<close>;
  \<^item> the search engine in \<open>search\<close>: the lower-cased file name selects the
    CSV reader (2000-row chunks) or the XLSX reader (one pass); each row's
    fields, missing ones filled with the empty string, are joined by a space
    and searched with \<open>str.contains(query, case=False)\<close>, that is with the
    query as a regular expression under \<open>re.IGNORECASE\<close>; an exception
    (a reader's, the pattern's, pandas') is answered with its text;
  \<^item> the pages, f-string templates returned as \<open>HTMLResponse\<close>, and the
    redirects.

  \<^bold>\<open>Theories.\<close>
  \<^item> \<open>Prelude\<close>: the model's type names (\<open>email\<close>, \<open>day\<close>, \<open>cell\<close>), the
    \<open>model_simps\<close> collection of evaluation equations, generic list lemmas.
  \<^item> \<open>PyStr\<close>: the Python string operations the code applies
    (\<open>py_lower\<close>, \<open>endswith\<close>, \<open>py_join\<close>, \<open>str_nat\<close>) and the substring
    test \<open>contains\<close>, each executable and related to the library's
    \<open>suffix\<close> and \<open>sublist\<close>.
  \<^item> \<open>PyRe\<close>: the interface \<open>regex\<close> of Python's \<open>re\<close> as pandas uses it
    (a pattern compiles to the error's text or to its search predicate), and
    one implementation, \<open>re_compile\<close>, of the common fragment of the
    pattern syntax: a parser with CPython's error messages and positions,
    and a matcher by derivatives proved correct against the language
    semantics \<open>lang\<close>; literal patterns are proved to be the
    case-insensitive substring test.
  \<^item> \<open>Search\<close>: records \<open>table\<close> and \<open>upload\<close>, the outcome datatype
    \<open>search_outcome\<close>; per chunk \<open>fillna\<close>, \<open>combined\<close> and \<open>agg_join\<close>
    (line 152, with the three shapes \<open>agg_result\<close> of what pandas returns),
    \<open>str_contains\<close> (line 153, passing \<open>re.IGNORECASE\<close> to the engine when
    \<open>case\<close> is false), \<open>select\<close> (line 155); the
    reader's \<open>read_chunks\<close> over \<open>chunks\<close> and the loop \<open>csv_loop\<close> (lines
    146 to 155), \<open>search_csv\<close> (lines 144 to 167), \<open>search_xlsx\<close> (lines
    169 to 187) and \<open>search_upload\<close> (lines 141 to 193), all parameterised
    by the engine \<open>rx\<close>.  \<open>search_spec\<close> is the abstract specification
    both paths refine.
  \<^item> \<open>Usage\<close>: record \<open>usage\<close>, \<open>DAILY_LIMIT\<close>, \<open>check_quota\<close>
    (lines 127 to 139, refusal as \<open>Inl LimitReached\<close>), \<open>shown_count\<close>
    (lines 98 to 100); the abstract \<open>current_count\<close>, the invariant
    \<open>quota_ok\<close>, and \<open>quota_run\<close>, a run of one user's searches.
  \<^item> \<open>Auth\<close>: record \<open>user\<close>, \<open>gen_otp\<close>, \<open>send_otp\<close> and
    \<open>verify_otp\<close> (lines 49 to 77); the session as a map with
    \<open>logged_in\<close>, \<open>establish\<close> and \<open>clear_session\<close>.
  \<^item> \<open>App\<close>: record \<open>app_state\<close> (\<open>USERS\<close>, \<open>USAGE\<close>), datatypes
    \<open>request\<close> (one constructor per route, with the form fields and the
    environment the handler reads) and \<open>response\<close> (one per page or
    redirect, carrying what the page shows); one definition per handler and
    the routing function \<open>handle\<close>; \<open>run\<close> processes the requests of
    several clients, each with its own cookie, one at a time.
  \<^item> \<open>Clients\<close>: the deployed application as an inductive state machine
    \<open>reach\<close> over worlds (server state and every client's cookie): any
    client sends any request, and a client may obtain another client's
    cookie; the invariant \<open>world_inv\<close> is proved by rule induction.
  \<^item> \<open>Pages\<close>: the HTML the handlers return, as strings: \<open>login_html\<close>
    (lines 35 to 43), \<open>otp_html\<close> (lines 56 to 66), \<open>welcome_html\<close>
    (lines 102 to 115) and \<open>search_html\<close> (lines 157 to 193), each
    template a \<open>triple_quoted\<close> string with the values interpolated as the
    f-strings do; \<open>render\<close> turns a \<open>response\<close> into the \<open>http\<close> answer
    (\<open>HtmlPage\<close> or \<open>RedirectTo\<close>), with pandas' \<open>to_html\<close> as a
    parameter.
  \<^item> \<open>Traces\<close>: what one server process answers to requests that carry
    their sessions (\<open>serve\<close>), the trace of a run of several clients
    (\<open>trace\<close>, which is \<open>serve\<close> on the sessions the clients present) and
    one user's searches in a trace (\<open>user_searches\<close>); the lemma
    \<open>serve_user_searches\<close>: those searches are the usage tracker's run
    \<open>quota_run\<close> on their days, whoever presented the sessions.
  \<^item> \<open>Workers\<close>: the application served by several processes, each with
    its own module globals \<open>USERS\<close> and \<open>USAGE\<close> (lines 14 to 16), all
    accepting the cookies signed with the one key of line 12 (record
    \<open>cluster\<close>, run \<open>ctrace\<close>, the part \<open>at_worker\<close> one process served).
  \<^item> This theory: the properties that span the components.

  \<^bold>\<open>What is proved.\<close>
  Search (C1 to C12), for every pattern engine unless stated: the chunked
  CSV scan equals the one-pass scan, and both equal the specification; the
  exact result with row order preserved; every branch of the dispatch, the
  error branch included; with Python's engine, that a query without
  metacharacters and its lower-case form give the same answer on every
  upload (this rests on \<open>case=False\<close> turning on \<open>re.IGNORECASE\<close>); the
  match of a field; that the frames the CSV loop collects for \<open>pd.concat\<close>
  are non-empty, of at most 2000 rows, and at most \<open>\<lceil>rows/2000\<rceil>\<close>; that
  \<open>a|b\<close> is an alternation, not a substring; that a table without rows is
  answered with pandas' error (one text with a header, another without
  columns); that an unclosed group is answered with CPython's
  \<open>re.error\<close>; and that for a query without metacharacters the
  regular-expression mask is the substring mask.
  Quota (C13 to C19): the invariant that no count exceeds the limit, the
  exact refusal condition, the exact admissions of a day's run, the reset on
  a new day, at most ten admissions a day on any run with a monotone clock,
  that a clock set back gives twenty admissions on one day for any two
  days, and that the landing page shows a stale count while the next search
  is admitted (C19, in theory \<open>App\<close>).  OTP (C20, C21): issue-then-verify, and that every code is
  six decimal digits whatever the draws.
  Application (C22 to C29): the quota invariant over every
  multi-client run, redirection of protected pages, that only the stored
  code logs a session in, that verification never consumes the code, that a
  refusal changes nothing, that a search is charged whatever the file,
  isolation between users, and the whole flow of the specification for
  every user, code, file and query.  Deployment (C30 to C32): in every
  reachable world a logged-in session names a registered e-mail; in every
  reachable world a copy of a logged-in cookie survives its owner's logout,
  with the server unchanged; from every reachable world any client can log
  in as any non-empty e-mail in two requests.  Pages (C33 to C36): the query reaches the result
  page verbatim (it is not escaped); the OTP page shows the code that logs
  in and puts the e-mail unescaped into an attribute; every redirect goes to
  \<open>/app\<close> or \<open>/login\<close>; a malformed query is answered with the error page
  carrying the engine's message.  Across components, in this theory: the
  application's search path refines the usage tracker's run
  (\<open>run_searches_refines_quota\<close>), which gives the daily limit for a
  logged-in client (C37) and, stated as a refinement, that the admitted
  searches are exactly those the abstract quota machine admits (C38); the
  limit is per user, not per client: one user's searches, from any number of
  clients interleaved with any other requests, are the abstract machine's
  run on their days, so at most ten a day get a search page (C39).  With
  several processes (C40, theory \<open>Workers\<close>) the same holds per process
  and no further: two processes give one login twenty search pages a day.

  \<^bold>\<open>Choices and bounds.\<close>
  No loop needs fuel: the CSV loop is structural over the chunks,
  \<open>chunks\<close> terminates by the measure \<open>length\<close>, the pattern parser is
  structural over the pattern.  The chunk size is the code's constant 2000;
  \<open>pd.read_csv\<close> always yields a first chunk, an empty one for a file
  without rows (pandas' \<open>TextFileReader\<close> returns the empty frame on its
  first read).  On a frame without rows \<open>DataFrame.agg(" ".join, axis=1)\<close>
  goes through pandas' \<open>apply_empty_result\<close>: with columns, the trial call
  on a row of \<open>NaN\<close>s raises and the frame itself comes back, whose
  \<open>.str\<close> raises \<open>AttributeError: 'DataFrame' object has no attribute
  'str'\<close>; without columns (an empty sheet) the trial call joins nothing,
  pandas reduces to an empty float Series, and \<open>.str\<close> raises \<open>Can only
  use .str accessor with string values!\<close>.  The draws of
  \<open>random.choices\<close> are a function from the pick's number to a natural
  number reduced to an index, so every six-digit code is some input.  Days are natural numbers; the daily
  bound is stated for runs whose days never decrease (\<open>date.today()\<close> on
  a monotone clock), and C18 shows why the hypothesis is needed.  Handlers
  run to completion one at a time: \<open>search\<close> has no \<open>await\<close>, so on the
  event loop its check-then-increment is atomic.

  \<^bold>\<open>Not modelled.\<close>
  The HTML pandas prints for a result table (\<open>DataFrame.to_html\<close>, a
  parameter of \<open>render\<close>, so the page lemmas hold for any printer);
  FastAPI's request parsing and form validation (an empty form field is
  refused before the handler runs, hence the non-empty e-mail of C32);
  Starlette's cookie signing; pandas' CSV and XLSX parsing (an upload
  carries each reader's outcome, a table or the exception's message, as a
  whole: when a CSV line beyond the first chunk is malformed and the query
  is also malformed, pandas reports the pattern's error first and the model
  the reader's); Python's \<open>re\<close> beyond the fragment \<open>re_compile\<close>
  implements (character classes, anchors, counted repetition, letter
  escapes, extensions), which the search lemmas do not need since they hold
  for every engine; the random source (its draws are an input).
  \<open>str.lower\<close> and \<open>re.IGNORECASE\<close> are modelled on ASCII; HOL characters
  are bytes.

  \<^bold>\<open>Plan.\<close>
  Done in order of importance: the search engine with its pattern engine,
  the quota, the OTP registry and session, the handlers and their runs, the
  deployment as a state machine, the pages as strings, the daily bound for a
  user whose searches come from several interleaved clients, and the split
  of the globals over several server processes.  Every line of
  \<open>src/main.py\<close> but the imports is translated; what remains is library
  behaviour (the list above), in particular character classes and anchors
  in \<open>re_compile\<close>, which no lemma of the search depends on.
\<close>

section \<open>Properties across components\<close>

text \<open>
  A client logged in as \<open>e\<close> sending searches: the application's answers
  and its \<open>USAGE\<close> are those of the usage tracker's run on the searches'
  days, each admitted search answered with the search engine's outcome.
\<close>

lemma run_searches_refines_quota:
  "logged_in (cookies w c) = Some e \<Longrightarrow>
   snd (run rx w (map (\<lambda>(d, up, q). (c, SearchFile d up q)) xs)) =
     map2 (\<lambda>(d, ok) (_, up, q). if ok then SearchPage q (search_upload rx q up) else LimitPage)
       (fst (quota_run (usage (server w)) e (map fst xs))) xs \<and>
   usage (server (fst (run rx w (map (\<lambda>(d, up, q). (c, SearchFile d up q)) xs)))) =
     snd (quota_run (usage (server w)) e (map fst xs))"
proof (induction xs arbitrary: w)
  case Nil
  then show ?case by simp
next
  case (Cons x xs)
  obtain d up q where x: "x = (d, up, q)" by (cases x) blast
  show ?case
  proof (cases "DAILY_LIMIT \<le> current_count (usage (server w)) e d")
    case True
    then have "check_quota (usage (server w)) e d = Inl LimitReached"
      by (simp add: check_quota_current)
    then show ?thesis
      using Cons.IH[of w] Cons.prems True x
      by (simp add: search_handler_logged_in prod.case_eq_if)
  next
    case False
    define db1 where "db1 = (usage (server w))(e \<mapsto>
      \<lparr>u_date = d, u_count = Suc (current_count (usage (server w)) e d)\<rparr>)"
    have q: "check_quota (usage (server w)) e d = Inr db1"
      using False by (simp add: check_quota_current db1_def)
    have "logged_in (cookies \<lparr>server = (server w)\<lparr>usage := db1\<rparr>, cookies = cookies w\<rparr> c) = Some e"
      using Cons.prems by simp
    from Cons.IH[OF this] show ?thesis
      using Cons.prems False x q
      by (simp add: search_handler_logged_in prod.case_eq_if db1_def[symmetric])
  qed
qed

lemma count_search_pages:
  "map fst outs = map fst xs \<Longrightarrow>
   length (filter (\<lambda>((d, _, _), r). d = x \<and> r \<noteq> LimitPage)
     (zip xs (map2 (\<lambda>(d, ok) (_, up, q). if ok then SearchPage q (search_upload rx q up) else LimitPage)
                outs xs)))
   = admitted_on x outs"
proof (induction xs arbitrary: outs)
  case Nil
  then show ?case by simp
next
  case (Cons y xs)
  then obtain o1 os where "outs = o1 # os" and "fst o1 = fst y" and "map fst os = map fst xs"
    by (cases outs) auto
  with Cons.IH show ?case
    by (cases o1, cases y) auto
qed

lemma admission_pattern:
  "map fst outs = map fst xs \<Longrightarrow>
   map (\<lambda>r. r \<noteq> LimitPage)
     (map2 (\<lambda>(d, ok) (_, up, q). if ok then SearchPage q (search_upload rx q up) else LimitPage) outs xs)
   = map snd outs"
proof (induction xs arbitrary: outs)
  case Nil
  then show ?case by simp
next
  case (Cons y xs)
  then obtain o1 os where "outs = o1 # os" and "map fst os = map fst xs"
    by (cases outs) auto
  with Cons.IH show ?case
    by (cases o1, cases y) auto
qed

text \<open>
  C37. The daily limit at the level of the whole application: a client
  logged in as a user with no usage record, sending searches whose days never
  go back, gets search results (rather than the limit page) for at most
  \<open>DAILY_LIMIT\<close> of its searches on any one day.
\<close>

theorem app_daily_bound:
  assumes "logged_in (cookies w c) = Some e" and "usage (server w) e = None"
    and "quota_ok (usage (server w))" and "sorted (map fst xs)"
  shows "length (filter (\<lambda>((d, _, _), r). d = x \<and> r \<noteq> LimitPage)
           (zip xs (snd (run rx w (map (\<lambda>(d, up, q). (c, SearchFile d up q)) xs))))) \<le> DAILY_LIMIT"
proof -
  let ?outs = "fst (quota_run (usage (server w)) e (map fst xs))"
  have "map fst ?outs = map fst xs" by (rule quota_run_days)
  then have "length (filter (\<lambda>((d, _, _), r). d = x \<and> r \<noteq> LimitPage)
           (zip xs (snd (run rx w (map (\<lambda>(d, up, q). (c, SearchFile d up q)) xs))))) = admitted_on x ?outs"
    using run_searches_refines_quota[OF assms(1), of rx xs] count_search_pages by simp
  also have "\<dots> \<le> DAILY_LIMIT"
    using quota_run_bound[OF assms(3,4), of e x] assms(2) by simp
  finally show ?thesis .
qed

theorem app_daily_bound_witness:
  "length (filter (\<lambda>((d, _, _), r). d = 5 \<and> r \<noteq> LimitPage)
     (zip (replicate 12 (5 :: day, \<lparr>filename = ''a.csv'', csv_read = Inl ''x'', excel_read = Inl ''y''\<rparr>, ''q''))
       (snd (run re_compile (fst (run re_compile init_world
                 [(0, SendOtp ''ada@x.it'' (nth [0, 4, 2, 9, 1, 7])), (0, VerifyOtp ''ada@x.it'' ''042917'')]))
         (map (\<lambda>(d, up, q). (0, SearchFile d up q)) (replicate 12 (5 :: day, \<lparr>filename = ''a.csv'', csv_read = Inl ''x'', excel_read = Inl ''y''\<rparr>, ''q'')))))))
   \<le> DAILY_LIMIT"
proof -
  let ?w = "fst (run re_compile init_world
              [(0, SendOtp ''ada@x.it'' (nth [0, 4, 2, 9, 1, 7])), (0, VerifyOtp ''ada@x.it'' ''042917'')])"
  have l: "logged_in (cookies ?w 0) = Some ''ada@x.it''" by code_simp
  have u: "usage (server ?w) ''ada@x.it'' = None" by code_simp
  have q: "quota_ok (usage (server ?w))"
    by (rule run_quota_ok_gen) (simp add: init_world_def init_state_def)
  have s: "sorted (map fst (replicate 12 (5 :: day, \<lparr>filename = ''a.csv'', csv_read = Inl ''x'', excel_read = Inl ''y''\<rparr>, ''q'')))"
    by simp
  show ?thesis by (rule app_daily_bound[OF l u q s])
qed


text \<open>
  C38. The search path of the application refines the usage tracker: for a
  logged-in client, which of its searches get a search page (rather than the
  limit page) is exactly the admission pattern of the abstract quota machine
  \<open>quota_run\<close> on the searches' days, and the usage map after the run is the
  machine's final state.
\<close>

theorem app_search_refines_quota:
  assumes "logged_in (cookies w c) = Some e"
  shows "map (\<lambda>r. r \<noteq> LimitPage) (snd (run rx w (map (\<lambda>(d, up, q). (c, SearchFile d up q)) xs))) =
           map snd (fst (quota_run (usage (server w)) e (map fst xs))) \<and>
         usage (server (fst (run rx w (map (\<lambda>(d, up, q). (c, SearchFile d up q)) xs)))) =
           snd (quota_run (usage (server w)) e (map fst xs))"
  using run_searches_refines_quota[OF assms, of rx xs] admission_pattern[OF quota_run_days] by simp

theorem app_search_refines_quota_witness:
  "map (\<lambda>r. r \<noteq> LimitPage) (snd (run re_compile (fst (run re_compile init_world
       [(0, SendOtp ''ada@x.it'' (nth [0, 4, 2, 9, 1, 7])), (0, VerifyOtp ''ada@x.it'' ''042917'')]))
       (map (\<lambda>(d, up, q). (0, SearchFile d up q)) [(5 :: day, \<lparr>filename = ''a.txt'', csv_read = Inl ''x'', excel_read = Inl ''y''\<rparr>, ''q'')]))) =
     map snd (fst (quota_run (usage (server (fst (run re_compile init_world
       [(0, SendOtp ''ada@x.it'' (nth [0, 4, 2, 9, 1, 7])), (0, VerifyOtp ''ada@x.it'' ''042917'')])))) ''ada@x.it''
       (map fst [(5 :: day, \<lparr>filename = ''a.txt'', csv_read = Inl ''x'', excel_read = Inl ''y''\<rparr>, ''q'')]))) \<and>
   usage (server (fst (run re_compile (fst (run re_compile init_world
       [(0, SendOtp ''ada@x.it'' (nth [0, 4, 2, 9, 1, 7])), (0, VerifyOtp ''ada@x.it'' ''042917'')]))
       (map (\<lambda>(d, up, q). (0, SearchFile d up q)) [(5 :: day, \<lparr>filename = ''a.txt'', csv_read = Inl ''x'', excel_read = Inl ''y''\<rparr>, ''q'')])))) =
     snd (quota_run (usage (server (fst (run re_compile init_world
       [(0, SendOtp ''ada@x.it'' (nth [0, 4, 2, 9, 1, 7])), (0, VerifyOtp ''ada@x.it'' ''042917'')])))) ''ada@x.it''
       (map fst [(5 :: day, \<lparr>filename = ''a.txt'', csv_read = Inl ''x'', excel_read = Inl ''y''\<rparr>, ''q'')]))"
proof -
  have l: "logged_in (cookies (fst (run re_compile init_world
       [(0, SendOtp ''ada@x.it'' (nth [0, 4, 2, 9, 1, 7])), (0, VerifyOtp ''ada@x.it'' ''042917'')])) 0) = Some ''ada@x.it''"
    by code_simp
  show ?thesis by (rule app_search_refines_quota[OF l])
qed


text \<open>
  C39. The daily limit holds per user, not per client: in any run from the
  start of the process, however many clients log in as the same user and
  however their requests interleave with each other and with other users'
  requests, at most \<open>DAILY_LIMIT\<close> of that user's searches on any day get
  a search page, provided the days of that user's searches never go back.
\<close>

theorem app_daily_bound_interleaved:
  "sorted (map fst (user_searches e (trace rx init_world rs))) \<Longrightarrow>
   admitted_on x (user_searches e (trace rx init_world rs)) \<le> DAILY_LIMIT"
  using quota_run_bound[of "usage (server init_world)" "map fst (user_searches e (trace rx init_world rs))" e x]
    trace_user_searches[of e rx init_world rs]
  by (simp add: init_world_def init_state_def current_count_def)

theorem app_daily_bound_interleaved_witness:
  "admitted_on 5 (user_searches ''ada@x.it'' (trace re_compile init_world
     ([(0, SendOtp ''ada@x.it'' (nth [0, 4, 2, 9, 1, 7])), (0, VerifyOtp ''ada@x.it'' ''042917''),
        (1, VerifyOtp ''ada@x.it'' ''042917'')] @
       concat (replicate 6 [(0, SearchFile 5 \<lparr>filename = ''a.txt'', csv_read = Inl ''x'', excel_read = Inl ''y''\<rparr> ''q''),
                            (1, SearchFile 5 \<lparr>filename = ''a.txt'', csv_read = Inl ''x'', excel_read = Inl ''y''\<rparr> ''q'')])))) \<le> DAILY_LIMIT"
  by (rule app_daily_bound_interleaved) code_simp

end
